theory Spec2Isabelle
  imports Complex_Main "HOL-Library.Word"
begin

unbundle bit_operations_syntax

section \<open>Machine-level conventions\<close>

text \<open>
  The driver is compiled for a 32-bit ARM core: \<open>uint32_t\<close>, \<open>unsigned long\<close> and
  \<open>long\<close> are 32 bits wide, unsigned arithmetic wraps around. An integer division by
  zero and an index outside an array are undefined behaviour in the source; the model
  makes each of them a fault value, so that no theorem silently relies on HOL's
  \<open>x div 0 = 0\<close> or on an unspecified element. A \<open>memcpy\<close> that runs past its
  arrays is treated where it occurs.
\<close>

datatype fault = Division_By_Zero | Out_Of_Bounds

type_synonym u32 = "32 word"

text \<open>
  Assignment to a bit-field member declared \<open>uint32_t F : w\<close> keeps the low \<open>w\<close> bits
  of the assigned value.
\<close>

definition bit_field :: "nat \<Rightarrow> u32 \<Rightarrow> u32" where
  "bit_field w v = take_bit w v"

section \<open>Bit-timing calculator: \<open>compute_nbtp\<close>\<close>

text \<open>
  \<open>#define DIV_ROUND(a, b) (((a) + (b) / 2) / (b))\<close> and
  \<open>#define DIV_ROUND_UP(a, b) (((a) + (b)-1) / (b))\<close>, on \<open>uint32_t\<close> operands.
\<close>

definition DIV_ROUND :: "u32 \<Rightarrow> u32 \<Rightarrow> u32" where
  "DIV_ROUND a b = (a + b div 2) div b"

definition DIV_ROUND_UP :: "u32 \<Rightarrow> u32 \<Rightarrow> u32" where
  "DIV_ROUND_UP a b = (a + b - 1) div b"

text \<open>
  The register and message-RAM layouts (\<open>CAN_NBTP_Type\<close>, \<open>CAN_TXBE_0_Type\<close>,
  \<open>CanMramSidfe\<close>, ...) are declared in the device header, which is not part of the
  sources at hand. Their bit-field members are modelled by name. The widths of the
  members that receive a computed value are a parameter of the model, \<open>bit_widths\<close>;
  \<open>same5x\<close> gives the widths of the SAM E5x layouts for concrete evaluations
  (NTSEG2 7, NTSEG1 8, NBRP 9, NSJW 7, ID 29, DLC 4, SFID1 and SFID2 11, EFID1 and EFID2 29,
  F0AI 6 bits).
\<close>

record CAN_NBTP_Type =
  NTSEG2 :: u32
  NTSEG1 :: u32
  NBRP :: u32
  NSJW :: u32

record bit_widths =
  NTSEG2_bits :: nat
  NTSEG1_bits :: nat
  NBRP_bits :: nat
  NSJW_bits :: nat
  ID_bits :: nat
  DLC_bits :: nat
  SFID_bits :: nat
  EFID_bits :: nat
  F0AI_bits :: nat

definition same5x :: bit_widths where
  "same5x =
     \<lparr>NTSEG2_bits = 7, NTSEG1_bits = 8, NBRP_bits = 9, NSJW_bits = 7, ID_bits = 29,
      DLC_bits = 4, SFID_bits = 11, EFID_bits = 29, F0AI_bits = 6\<rparr>"

text \<open>
  \<open>bool compute_nbtp(uint32_t baudrate, CAN_NBTP_Type &result)\<close>. The clock
  \<open>can_frequency\<close> is the board constant \<open>VARIANT_GCLK1_FREQ\<close>, defined outside the
  sources, hence a parameter here. The result is the returned flag together with the
  contents of \<open>result\<close> after the call; the early \<open>return false\<close> leaves \<open>result\<close> as
  it was. The divisions by \<open>baudrate\<close>, \<open>divisor\<close> and \<open>divisor * 4\<close> are guarded: for
  a divisor of at most 32 the product \<open>divisor * 4\<close> is zero exactly when \<open>divisor\<close> is.
\<close>

definition compute_nbtp ::
    "bit_widths \<Rightarrow> u32 \<Rightarrow> u32 \<Rightarrow> CAN_NBTP_Type \<Rightarrow> fault + (bool \<times> CAN_NBTP_Type)" where
  "compute_nbtp W can_frequency baudrate result =
     (if baudrate = 0 then Inl Division_By_Zero
      else
        let clocks_per_bit = DIV_ROUND can_frequency baudrate;
            clocks_to_sample = DIV_ROUND (clocks_per_bit * 7) 8;
            clocks_after_sample = clocks_per_bit - clocks_to_sample;
            divisor = max (DIV_ROUND_UP clocks_to_sample 256)
                          (DIV_ROUND_UP clocks_after_sample 128)
        in if divisor > 32 then Inr (False, result)
           else if divisor = 0 then Inl Division_By_Zero
           else Inr (True, result
             \<lparr>NTSEG1 := bit_field (NTSEG1_bits W) (DIV_ROUND clocks_to_sample divisor - 2),
              NTSEG2 := bit_field (NTSEG2_bits W) (DIV_ROUND clocks_after_sample divisor - 1),
              NBRP := bit_field (NBRP_bits W) (divisor - 1),
              NSJW := bit_field (NSJW_bits W) (DIV_ROUND clocks_after_sample (divisor * 4))\<rparr>))"

section \<open>Nestable critical section\<close>

text \<open>
  The two file-scope variables \<open>cpu_irq_critical_section_counter\<close> (\<open>unsigned long\<close>)
  and \<open>cpu_irq_prev_interrupt_state\<close> (\<open>unsigned char\<close>), together with the core's
  PRIMASK register as seen through \<open>__get_PRIMASK\<close>, \<open>__disable_irq\<close> (sets it to 1)
  and \<open>__enable_irq\<close> (clears it). Interrupts are enabled when PRIMASK is zero. The
  memory barrier \<open>__DMB\<close> has no effect on this state.
\<close>

record irq_state =
  cpu_irq_critical_section_counter :: u32
  cpu_irq_prev_interrupt_state :: "8 word"
  PRIMASK :: u32

definition cpu_irq_enter_critical :: "irq_state \<Rightarrow> irq_state" where
  "cpu_irq_enter_critical s =
     (let s1 =
        (if cpu_irq_critical_section_counter s = 0 then
           (if PRIMASK s = 0
            then s\<lparr>PRIMASK := 1, cpu_irq_prev_interrupt_state := 1\<rparr>
            else s\<lparr>cpu_irq_prev_interrupt_state := 0\<rparr>)
         else s)
      in s1\<lparr>cpu_irq_critical_section_counter := cpu_irq_critical_section_counter s1 + 1\<rparr>)"

definition cpu_irq_leave_critical :: "irq_state \<Rightarrow> irq_state" where
  "cpu_irq_leave_critical s =
     (if cpu_irq_critical_section_counter s > 0 then
        let s1 = s\<lparr>cpu_irq_critical_section_counter := cpu_irq_critical_section_counter s - 1\<rparr>
        in if cpu_irq_critical_section_counter s1 = 0 \<and> cpu_irq_prev_interrupt_state s1 \<noteq> 0
           then s1\<lparr>PRIMASK := 0\<rparr>
           else s1
      else s)"

section \<open>Message RAM, peripheral registers and the controller object\<close>

text \<open>
  The enumerators written into filter elements and registers (\<open>CAN_SIDFE_0_SFEC_STF0M_Val\<close>,
  \<open>CAN_XIDFE_0_EFEC_REJECT_Val\<close>, \<open>CAN_SIDFE_0_SFT_CLASSIC_Val\<close>,
  \<open>CAN_GFC_ANFS_REJECT_Val\<close>, \<open>CAN_TXESC_TBDS_DATA8_Val\<close>, ...) are datatype
  constructors named after the macros. \<open>DISABLE\<close> and \<open>RANGE\<close> are the enumerators
  a zeroed filter element holds.
\<close>

datatype filter_config =
  DISABLE | STF0M | STF1M | REJECT | PRIORITY | PRIF0M | PRIF1M | STRXBUF

datatype filter_type = RANGE | DUAL | CLASSIC

datatype nonmatching_frames = ANF_RXF0 | ANF_RXF1 | ANF_REJECT

datatype data_field_size = DATA8 | DATA12 | DATA16 | DATA20 | DATA24 | DATA32 | DATA48 | DATA64

datatype gclk_generator = GCLK_PCHCTRL_GEN_GCLK0 | GCLK_PCHCTRL_GEN_GCLK1

datatype pin_mux = PIO_UNASSIGNED | CAN0_FUNCTION | CAN1_FUNCTION

datatype ram_address =
  Addr_tx_buffer | Addr_rx_fifo | Addr_standard_rx_filter | Addr_extended_rx_filter

datatype pointer = Unset | To_CAN1 | To_can_state

text \<open>
  \<open>struct _canSAME5x_tx_buf\<close> and \<open>struct _canSAME5x_rx_fifo\<close>: the bit-field members
  the driver touches, and the eight data bytes. One-bit members are booleans.
\<close>

record canSAME5x_tx_buf =
  txb0_ESI :: bool
  txb0_XTD :: bool
  txb0_RTR :: bool
  txb0_ID :: u32
  txb1_MM :: u32
  txb1_EFC :: bool
  txb1_FDF :: bool
  txb1_BRS :: bool
  txb1_DLC :: u32
  tx_data :: "8 word list"

record canSAME5x_rx_fifo =
  rxf0_ID :: u32
  rxf0_XTD :: bool
  rxf0_RTR :: bool
  rxf1_DLC :: u32
  rx_data :: "8 word list"

record CanMramSidfe =
  SFID1 :: u32
  SFID2 :: u32
  SFEC :: filter_config
  SFT :: filter_type

record CanMramXifde =
  EFID1 :: u32
  EFEC :: filter_config
  EFID2 :: u32
  EFT :: filter_type

text \<open>
  \<open>struct _canSAME5x_state\<close>. The transmit buffer and the two filter lists have one
  element each and are only ever indexed with the constant 0; the receive FIFO has
  \<open>ADAFRUIT_ZEROCAN_RX_FIFO_SIZE\<close> elements and is indexed by a value read from the
  hardware, so it is a function of the index, guarded by the bound wherever it is read.
\<close>

definition ADAFRUIT_ZEROCAN_TX_BUFFER_SIZE :: nat where
  "ADAFRUIT_ZEROCAN_TX_BUFFER_SIZE = 1"

definition ADAFRUIT_ZEROCAN_RX_FILTER_SIZE :: nat where
  "ADAFRUIT_ZEROCAN_RX_FILTER_SIZE = 1"

definition ADAFRUIT_ZEROCAN_RX_FIFO_SIZE :: nat where
  "ADAFRUIT_ZEROCAN_RX_FIFO_SIZE = 8"

definition ADAFRUIT_ZEROCAN_MAX_MESSAGE_LENGTH :: nat where
  "ADAFRUIT_ZEROCAN_MAX_MESSAGE_LENGTH = 8"

record canSAME5x_state =
  tx_buffer :: canSAME5x_tx_buf
  rx_fifo :: "nat \<Rightarrow> canSAME5x_rx_fifo"
  standard_rx_filter :: CanMramSidfe
  extended_rx_filter :: CanMramXifde

text \<open>The registers of the CAN peripheral that the modelled functions read or write.\<close>

record Can =
  CCCR_INIT :: bool
  CCCR_CCE :: bool
  TXESC_TBDS :: data_field_size
  TXBC_TBSA :: "ram_address option"
  TXBC_NDTB :: nat
  TXBC_TFQM :: bool
  RXESC_F0DS :: data_field_size
  RXESC_F1DS :: data_field_size
  RXESC_RBDS :: data_field_size
  RXF0C_F0SA :: "ram_address option"
  RXF0C_F0S :: nat
  GFC_RRFE :: bool
  GFC_ANFS :: nonmatching_frames
  GFC_ANFE :: nonmatching_frames
  SIDFC_LSS :: nat
  SIDFC_FLSSA :: "ram_address option"
  XIDFC_LSE :: nat
  XIDFC_FLESA :: "ram_address option"
  NBTP :: CAN_NBTP_Type
  TXBAR :: u32
  RXF0S_F0FL :: u32
  RXF0S_F0GI :: u32
  RXF0A_F0AI :: u32

text \<open>
  The members of \<open>CANSAME5x\<close> and of its base class \<open>CANControllerClass\<close> that the
  modelled functions use. The class declarations are not part of the sources at hand;
  \<open>long\<close> and \<open>int\<close> members are integers, the two payload buffers hold eight bytes.
\<close>

record CANSAME5x =
  this_tx :: int
  this_rx :: int
  this_idx :: int
  this_hw :: pointer
  this_state :: pointer
  this_txId :: int
  this_txExtended :: bool
  this_txRtr :: bool
  this_txLength :: int
  this_txData :: "8 word list"
  this_rxId :: int
  this_rxExtended :: bool
  this_rxRtr :: bool
  this_rxDlc :: int
  this_rxLength :: int
  this_rxIndex :: int
  this_rxData :: "8 word list"

text \<open>
  Everything the modelled functions can see: the critical-section state, the peripheral,
  the message RAM \<open>can_state\<close>, the controller object, the table \<open>instances\<close> (an entry
  is either null or refers to this controller), the pin multiplexer as set by
  \<open>pinPeripheral\<close>, and the peripheral channel control of the CAN1 clock. The memory
  that follows the array \<open>_rxData\<close> in the object is laid out by the class
  declaration and is not represented; \<open>overrun\<close> counts the bytes that have been
  written into it.
\<close>

record machine =
  irq :: irq_state
  hw :: Can
  can_state :: canSAME5x_state
  dev :: CANSAME5x
  instances :: "nat \<Rightarrow> bool"
  pin_function :: "int \<Rightarrow> pin_mux"
  PCHCTRL_GEN :: gclk_generator
  PCHCTRL_CHEN :: bool
  overrun :: nat

text \<open>
  \<open>memcpy(dst, src, n)\<close> on two arrays of eight bytes: the bytes of \<open>dst\<close> after the
  call. For \<open>n\<close> above eight all eight bytes of \<open>dst\<close> come from \<open>src\<close>; the bytes
  copied beyond them lie outside both arrays.
\<close>

definition memcpy :: "8 word list \<Rightarrow> 8 word list \<Rightarrow> nat \<Rightarrow> 8 word list" where
  "memcpy dst src n = take n src @ drop n dst"

subsection \<open>\<open>CANSAME5x::begin\<close>\<close>

text \<open>What \<open>memset(state, 0, sizeof(*state))\<close> leaves in the message RAM.\<close>

definition zero_can_state :: canSAME5x_state where
  "zero_can_state =
     \<lparr>tx_buffer =
        \<lparr>txb0_ESI = False, txb0_XTD = False, txb0_RTR = False, txb0_ID = 0, txb1_MM = 0,
         txb1_EFC = False, txb1_FDF = False, txb1_BRS = False, txb1_DLC = 0,
         tx_data = replicate ADAFRUIT_ZEROCAN_MAX_MESSAGE_LENGTH 0\<rparr>,
      rx_fifo = (\<lambda>i.
        \<lparr>rxf0_ID = 0, rxf0_XTD = False, rxf0_RTR = False, rxf1_DLC = 0,
         rx_data = replicate ADAFRUIT_ZEROCAN_MAX_MESSAGE_LENGTH 0\<rparr>),
      standard_rx_filter = \<lparr>SFID1 = 0, SFID2 = 0, SFEC = DISABLE, SFT = RANGE\<rparr>,
      extended_rx_filter = \<lparr>EFID1 = 0, EFEC = DISABLE, EFID2 = 0, EFT = RANGE\<rparr>\<rparr>"

text \<open>
  The body of \<open>begin\<close> after the two early returns, statement by statement. The
  peripheral is taken to acknowledge a write to \<open>CCCR.INIT\<close> at once (the bit reads
  back as written), so the two waiting loops fall through. A braced block that builds a
  register value from \<open>{}\<close> and stores its \<open>.reg\<close> sets every member of that register.
\<close>

definition begin_configure :: "CAN_NBTP_Type \<Rightarrow> machine \<Rightarrow> machine" where
  "begin_configure nbtp m =
     (let m = m\<lparr>dev := (dev m)\<lparr>this_hw := To_CAN1, this_state := To_can_state, this_idx := 1\<rparr>\<rparr>;
          m = m\<lparr>can_state := zero_can_state\<rparr>;
          m = m\<lparr>pin_function := (pin_function m)(this_tx (dev m) := CAN1_FUNCTION)\<rparr>;
          m = m\<lparr>pin_function := (pin_function m)(this_rx (dev m) := CAN1_FUNCTION)\<rparr>;
          m = m\<lparr>PCHCTRL_GEN := GCLK_PCHCTRL_GEN_GCLK1, PCHCTRL_CHEN := True\<rparr>;
          m = m\<lparr>hw := (hw m)\<lparr>CCCR_INIT := True\<rparr>\<rparr>;
          m = m\<lparr>hw := (hw m)\<lparr>CCCR_CCE := True\<rparr>\<rparr>;
          m = m\<lparr>hw := (hw m)\<lparr>TXESC_TBDS := DATA8\<rparr>\<rparr>;
          m = m\<lparr>hw := (hw m)\<lparr>TXBC_TBSA := Some Addr_tx_buffer,
                               TXBC_NDTB := ADAFRUIT_ZEROCAN_TX_BUFFER_SIZE,
                               TXBC_TFQM := False\<rparr>\<rparr>;
          m = m\<lparr>hw := (hw m)\<lparr>RXESC_F0DS := DATA8, RXESC_F1DS := DATA8, RXESC_RBDS := DATA8\<rparr>\<rparr>;
          m = m\<lparr>hw := (hw m)\<lparr>RXF0C_F0SA := Some Addr_rx_fifo,
                               RXF0C_F0S := ADAFRUIT_ZEROCAN_RX_FIFO_SIZE\<rparr>\<rparr>;
          m = m\<lparr>hw := (hw m)\<lparr>GFC_RRFE := False, GFC_ANFS := ANF_REJECT, GFC_ANFE := ANF_REJECT\<rparr>\<rparr>;
          m = m\<lparr>can_state := (can_state m)
                \<lparr>standard_rx_filter := (standard_rx_filter (can_state m))
                   \<lparr>SFID1 := 0, SFID2 := 0, SFEC := STF0M, SFT := CLASSIC\<rparr>\<rparr>\<rparr>;
          m = m\<lparr>can_state := (can_state m)
                \<lparr>extended_rx_filter := (extended_rx_filter (can_state m))
                   \<lparr>EFID1 := 0, EFEC := STF0M, EFID2 := 0, EFT := CLASSIC\<rparr>\<rparr>\<rparr>;
          m = m\<lparr>hw := (hw m)\<lparr>SIDFC_LSS := ADAFRUIT_ZEROCAN_RX_FILTER_SIZE,
                               SIDFC_FLSSA := Some Addr_standard_rx_filter\<rparr>\<rparr>;
          m = m\<lparr>hw := (hw m)\<lparr>XIDFC_LSE := ADAFRUIT_ZEROCAN_RX_FILTER_SIZE,
                               XIDFC_FLESA := Some Addr_extended_rx_filter\<rparr>\<rparr>;
          m = m\<lparr>hw := (hw m)\<lparr>NBTP := nbtp\<rparr>\<rparr>;
          m = m\<lparr>hw := (hw m)\<lparr>CCCR_CCE := False\<rparr>\<rparr>;
          m = m\<lparr>hw := (hw m)\<lparr>CCCR_INIT := False\<rparr>\<rparr>
      in m\<lparr>instances := (instances m)(nat (this_idx (dev m)) := True)\<rparr>)"

text \<open>
  \<open>int CANSAME5x::begin(long baudrate)\<close>, named \<open>begin_can\<close> here. The argument is the 32-bit pattern of
  \<open>baudrate\<close>, which the call of \<open>compute_nbtp\<close> reads as \<open>uint32_t\<close>. \<open>nbtp\<close> stands
  for the indeterminate initial contents of the local \<open>CAN_NBTP_Type nbtp\<close>.
\<close>

definition begin_can ::
    "bit_widths \<Rightarrow> u32 \<Rightarrow> CAN_NBTP_Type \<Rightarrow> u32 \<Rightarrow> machine \<Rightarrow> fault + (int \<times> machine)" where
  "begin_can W can_frequency nbtp baudrate m =
     (if this_tx (dev m) = - 1 then Inr (0, m)
      else case compute_nbtp W can_frequency baudrate nbtp of
             Inl f \<Rightarrow> Inl f
           | Inr (achievable, nbtp') \<Rightarrow>
               if \<not> achievable then Inr (0, m)
               else Inr (1, begin_configure nbtp' m))"

subsection \<open>\<open>CANSAME5x::endPacket\<close>\<close>

text \<open>
  The bounded wait \<open>for (int i = 0; i < 8000; i++) { if (hw->TXBTO.reg & 1) return true;
  yield(); }\<close>. \<open>TXBTO\<close> is set by the hardware: \<open>TXBTO_read i\<close> is the value the
  \<open>i\<close>-th poll reads. \<open>yield\<close> is taken not to touch the driver's state. The outcome
  records which of the two \<open>return\<close> statements is reached.
\<close>

datatype tx_wait = Tx_Occurred | Tx_Timeout

function wait_for_tx :: "(nat \<Rightarrow> u32) \<Rightarrow> nat \<Rightarrow> tx_wait" where
  "wait_for_tx TXBTO_read i =
     (if i < 8000
      then (if TXBTO_read i AND 1 \<noteq> 0 then Tx_Occurred else wait_for_tx TXBTO_read (i + 1))
      else Tx_Timeout)"
  by pat_completeness auto
termination
  by (relation "measure (\<lambda>(TXBTO_read, i). 8000 - i)") auto

text \<open>
  \<open>int CANSAME5x::endPacket()\<close>. \<open>base_endPacket\<close> is \<open>CANControllerClass::endPacket\<close>,
  whose code is not part of the sources at hand: it is a parameter, giving the value
  it returns and the object as it leaves it. The \<open>memcpy\<close> of \<open>_txLength\<close> bytes
  between two eight-byte arrays is guarded.
\<close>

definition endPacket ::
    "bit_widths \<Rightarrow> (CANSAME5x \<Rightarrow> int \<times> CANSAME5x) \<Rightarrow> (nat \<Rightarrow> u32) \<Rightarrow> machine
      \<Rightarrow> fault + (int \<times> machine)" where
  "endPacket W base_endPacket TXBTO_read m =
     (case base_endPacket (dev m) of (begun, self) \<Rightarrow>
        if begun = 0 then Inr (0, m\<lparr>dev := self\<rparr>)
        else
          let buf = tx_buffer (can_state m);
              buf = buf\<lparr>txb0_ESI := False\<rparr>;
              buf = buf\<lparr>txb0_XTD := this_txExtended self\<rparr>;
              buf = buf\<lparr>txb0_RTR := this_txRtr self\<rparr>;
              buf = (if this_txExtended self
                     then buf\<lparr>txb0_ID := bit_field (ID_bits W) (word_of_int (this_txId self))\<rparr>
                     else buf\<lparr>txb0_ID :=
                            bit_field (ID_bits W) (push_bit 18 (word_of_int (this_txId self)))\<rparr>);
              buf = buf\<lparr>txb1_MM := 0\<rparr>;
              buf = buf\<lparr>txb1_EFC := False\<rparr>;
              buf = buf\<lparr>txb1_FDF := False\<rparr>;
              buf = buf\<lparr>txb1_BRS := False\<rparr>;
              buf = buf\<lparr>txb1_DLC := bit_field (DLC_bits W) (word_of_int (this_txLength self))\<rparr>
          in if \<not> this_txRtr self \<and>
                \<not> (0 \<le> this_txLength self \<and>
                   this_txLength self \<le> int ADAFRUIT_ZEROCAN_MAX_MESSAGE_LENGTH)
             then Inl Out_Of_Bounds
             else
               let buf = (if \<not> this_txRtr self
                          then buf\<lparr>tx_data :=
                                 memcpy (tx_data buf) (this_txData self) (nat (this_txLength self))\<rparr>
                          else buf);
                   m = m\<lparr>dev := self, can_state := (can_state m)\<lparr>tx_buffer := buf\<rparr>\<rparr>;
                   m = m\<lparr>hw := (hw m)\<lparr>TXBAR := 1\<rparr>\<rparr>
               in case wait_for_tx TXBTO_read 0 of
                    Tx_Occurred \<Rightarrow> Inr (of_bool True, m)
                  | Tx_Timeout \<Rightarrow> Inr (1, m))"

subsection \<open>\<open>CANSAME5x::parsePacket\<close>\<close>

text \<open>
  \<open>int CANSAME5x::parsePacket()\<close>. In the branch for an empty FIFO the source has
  \<open>return 0;\<close> followed by \<open>cpu_irq_leave_critical();\<close>: the call after the \<open>return\<close>
  is never executed, so the branch returns with the critical section still entered.
  The index read from \<open>F0GI\<close> is guarded against the eight slots of \<open>rx_fifo\<close>.
  The \<open>memcpy\<close> of \<open>_rxLength\<close> bytes is not limited by the source: for a data frame
  whose length code is above 8 it reads past \<open>hw_message.data\<close> and writes past
  \<open>_rxData\<close>, and the function then goes on and returns \<open>_rxDlc\<close>. The model fills
  the eight bytes of \<open>_rxData\<close>, adds the number of bytes written past the array to
  \<open>overrun\<close>, and carries on with the members it represents as they are. What the
  peripheral itself does once the slot is acknowledged through \<open>F0AI\<close> is not part of
  the driver and not modelled.
\<close>

definition parsePacket :: "bit_widths \<Rightarrow> machine \<Rightarrow> fault + (int \<times> machine)" where
  "parsePacket W m =
     (let m = m\<lparr>irq := cpu_irq_enter_critical (irq m)\<rparr>
      in if RXF0S_F0FL (hw m) = 0 then Inr (0, m)
         else
           let index = unat (RXF0S_F0GI (hw m))
           in if \<not> index < ADAFRUIT_ZEROCAN_RX_FIFO_SIZE then Inl Out_Of_Bounds
              else
                let hw_message = rx_fifo (can_state m) index;
                    self = dev m;
                    self = self\<lparr>this_rxExtended := rxf0_XTD hw_message\<rparr>;
                    self = self\<lparr>this_rxRtr := rxf0_RTR hw_message\<rparr>;
                    self = self\<lparr>this_rxDlc := uint (rxf1_DLC hw_message)\<rparr>;
                    self = (if this_rxExtended self
                            then self\<lparr>this_rxId := uint (rxf0_ID hw_message)\<rparr>
                            else self\<lparr>this_rxId := uint (drop_bit 18 (rxf0_ID hw_message))\<rparr>);
                    m = (if this_rxRtr self then m
                         else m\<lparr>overrun := overrun m +
                                (nat (this_rxDlc self) - ADAFRUIT_ZEROCAN_MAX_MESSAGE_LENGTH)\<rparr>);
                    self = (if this_rxRtr self
                            then self\<lparr>this_rxLength := 0\<rparr>
                            else self\<lparr>this_rxLength := this_rxDlc self,
                                     this_rxData :=
                                       memcpy (this_rxData self) (rx_data hw_message)
                                         (nat (this_rxDlc self))\<rparr>);
                    self = self\<lparr>this_rxIndex := 0\<rparr>;
                    m = m\<lparr>dev := self\<rparr>;
                    m = m\<lparr>hw := (hw m)\<lparr>RXF0A_F0AI := bit_field (F0AI_bits W) (word_of_nat index)\<rparr>\<rparr>;
                    m = m\<lparr>irq := cpu_irq_leave_critical (irq m)\<rparr>
                in Inr (this_rxDlc self, m))"

subsection \<open>\<open>CANSAME5x::filter\<close> and \<open>CANSAME5x::filterExtended\<close>\<close>

text \<open>
  \<open>filter\<close> is named \<open>filter_can\<close> here. Both functions are declared \<open>int\<close> and have no \<open>return\<close> statement; the model gives
  the message RAM they leave behind. The arguments \<open>ident\<close> and \<open>msk\<close> are the
  values of the parameters \<open>id\<close> and \<open>mask\<close>.
\<close>

definition filter_can :: "bit_widths \<Rightarrow> int \<Rightarrow> int \<Rightarrow> canSAME5x_state \<Rightarrow> canSAME5x_state" where
  "filter_can W ident msk st =
     (let st = st\<lparr>standard_rx_filter := (standard_rx_filter st)
                  \<lparr>SFID1 := bit_field (SFID_bits W) (word_of_int ident)\<rparr>\<rparr>;
          st = st\<lparr>standard_rx_filter := (standard_rx_filter st)
                  \<lparr>SFID2 := bit_field (SFID_bits W) (word_of_int msk)\<rparr>\<rparr>;
          st = st\<lparr>standard_rx_filter := (standard_rx_filter st)\<lparr>SFEC := STF0M\<rparr>\<rparr>;
          st = st\<lparr>standard_rx_filter := (standard_rx_filter st)\<lparr>SFT := CLASSIC\<rparr>\<rparr>;
          st = st\<lparr>extended_rx_filter := (extended_rx_filter st)\<lparr>EFID1 := 0\<rparr>\<rparr>;
          st = st\<lparr>extended_rx_filter := (extended_rx_filter st)\<lparr>EFEC := REJECT\<rparr>\<rparr>;
          st = st\<lparr>extended_rx_filter := (extended_rx_filter st)\<lparr>EFID2 := 0\<rparr>\<rparr>
      in st\<lparr>extended_rx_filter := (extended_rx_filter st)\<lparr>EFT := CLASSIC\<rparr>\<rparr>)"

definition filterExtended ::
    "bit_widths \<Rightarrow> int \<Rightarrow> int \<Rightarrow> canSAME5x_state \<Rightarrow> canSAME5x_state" where
  "filterExtended W ident msk st =
     (let st = st\<lparr>standard_rx_filter := (standard_rx_filter st)\<lparr>SFID1 := 0\<rparr>\<rparr>;
          st = st\<lparr>standard_rx_filter := (standard_rx_filter st)\<lparr>SFID2 := 0\<rparr>\<rparr>;
          st = st\<lparr>standard_rx_filter := (standard_rx_filter st)\<lparr>SFEC := REJECT\<rparr>\<rparr>;
          st = st\<lparr>standard_rx_filter := (standard_rx_filter st)\<lparr>SFT := CLASSIC\<rparr>\<rparr>;
          st = st\<lparr>extended_rx_filter := (extended_rx_filter st)
                  \<lparr>EFID1 := bit_field (EFID_bits W) (word_of_int ident)\<rparr>\<rparr>;
          st = st\<lparr>extended_rx_filter := (extended_rx_filter st)\<lparr>EFEC := REJECT\<rparr>\<rparr>;
          st = st\<lparr>extended_rx_filter := (extended_rx_filter st)
                  \<lparr>EFID2 := bit_field (EFID_bits W) (word_of_int msk)\<rparr>\<rparr>
      in st\<lparr>extended_rx_filter := (extended_rx_filter st)\<lparr>EFT := CLASSIC\<rparr>\<rparr>)"

subsection \<open>The algorithm as the specification words it\<close>

text \<open>
  The specification computes on mathematical integers. \<open>spec_round a b\<close> is the
  quotient \<open>a / b\<close> rounded half up and \<open>spec_ceil a b\<close> is the quotient rounded up, for
  a positive \<open>b\<close>; lemmas \<open>spec_round_real\<close> and \<open>spec_ceil_real\<close> below relate them to
  \<open>floor\<close> and \<open>ceiling\<close> on the reals.
\<close>

definition spec_round :: "nat \<Rightarrow> nat \<Rightarrow> nat" where
  "spec_round a b = (2 * a + b) div (2 * b)"

definition spec_ceil :: "nat \<Rightarrow> nat \<Rightarrow> nat" where
  "spec_ceil a b = (a + b - 1) div b"

definition divisor_ok :: "nat \<Rightarrow> nat \<Rightarrow> nat \<Rightarrow> bool" where
  "divisor_ok cts cas d = (spec_ceil cts d \<le> 256 \<and> spec_ceil cas d \<le> 128)"

text \<open>
  The smallest divisor, counted from 1, found by searching upwards. The search stops:
  every \<open>d \<ge> 1\<close> that is at least both clock counts divides each of them into at most
  one quantum.
\<close>

function divisor_search :: "nat \<Rightarrow> nat \<Rightarrow> nat \<Rightarrow> nat" where
  "divisor_search cts cas d =
     (if divisor_ok cts cas d then d else divisor_search cts cas (d + 1))"
  by pat_completeness auto
termination
proof (relation "measure (\<lambda>(cts, cas, d). max cts cas - d)")
  show "wf (measure (\<lambda>(cts, cas, d). max cts cas - d))"
    by simp
next
  fix cts cas d :: nat
  assume nok: "\<not> divisor_ok cts cas d"
  have one: "spec_ceil a d \<le> 1" if "a \<le> d" for a
  proof (cases "d = 0")
    case True
    thus ?thesis by (simp add: spec_ceil_def)
  next
    case False
    hence "a + d - 1 < 2 * d" using that by simp
    hence "(a + d - 1) div d < 2" using False by (simp add: less_mult_imp_div_less)
    thus ?thesis by (simp add: spec_ceil_def)
  qed
  have "d < max cts cas"
  proof (rule ccontr)
    assume "\<not> d < max cts cas"
    hence le: "cts \<le> d" "cas \<le> d" by linarith+
    have "spec_ceil cts d \<le> 1" using le(1) by (rule one)
    moreover have "spec_ceil cas d \<le> 1" using le(2) by (rule one)
    ultimately have "divisor_ok cts cas d" by (simp add: divisor_ok_def)
    thus False using nok by simp
  qed
  thus "((cts, cas, d + 1), (cts, cas, d)) \<in> measure (\<lambda>(cts, cas, d). max cts cas - d)"
    by auto
qed

definition smallest_divisor :: "nat \<Rightarrow> nat \<Rightarrow> nat" where
  "smallest_divisor cts cas = divisor_search cts cas 1"

record timing_parameters =
  segment1_length :: int
  segment2_length :: int
  prescaler :: int
  sync_jump_width :: int

definition spec_clocks_per_bit :: "nat \<Rightarrow> nat \<Rightarrow> nat" where
  "spec_clocks_per_bit clock_hz baud_rate = spec_round clock_hz baud_rate"

definition spec_clocks_to_sample :: "nat \<Rightarrow> nat \<Rightarrow> nat" where
  "spec_clocks_to_sample clock_hz baud_rate =
     spec_round (spec_clocks_per_bit clock_hz baud_rate * 7) 8"

definition spec_clocks_after_sample :: "nat \<Rightarrow> nat \<Rightarrow> nat" where
  "spec_clocks_after_sample clock_hz baud_rate =
     spec_clocks_per_bit clock_hz baud_rate - spec_clocks_to_sample clock_hz baud_rate"

definition spec_divisor :: "nat \<Rightarrow> nat \<Rightarrow> nat" where
  "spec_divisor clock_hz baud_rate =
     smallest_divisor (spec_clocks_to_sample clock_hz baud_rate)
                      (spec_clocks_after_sample clock_hz baud_rate)"

text \<open>\<open>None\<close> stands for \<open>Error::Unachievable\<close>.\<close>

definition spec_compute :: "nat \<Rightarrow> nat \<Rightarrow> timing_parameters option" where
  "spec_compute clock_hz baud_rate =
     (let clocks_to_sample = spec_clocks_to_sample clock_hz baud_rate;
          clocks_after_sample = spec_clocks_after_sample clock_hz baud_rate;
          divisor = spec_divisor clock_hz baud_rate
      in if divisor > 32 then None
         else Some
           \<lparr>segment1_length = int (spec_round clocks_to_sample divisor) - 2,
            segment2_length = int (spec_round clocks_after_sample divisor) - 1,
            prescaler = int divisor - 1,
            sync_jump_width = int (spec_round clocks_after_sample (divisor * 4))\<rparr>)"

section \<open>Properties and example configurations\<close>

text \<open>
  The locals of \<open>compute_nbtp\<close> as functions of \<open>clocks_per_bit\<close>, for use in the
  proofs; lemma \<open>compute_nbtp_alt\<close> restates \<open>compute_nbtp\<close> with them.
\<close>

definition clocks_to_sample_of :: "u32 \<Rightarrow> u32" where
  "clocks_to_sample_of cpb = DIV_ROUND (cpb * 7) 8"

definition clocks_after_sample_of :: "u32 \<Rightarrow> u32" where
  "clocks_after_sample_of cpb = cpb - clocks_to_sample_of cpb"

definition divisor_of :: "u32 \<Rightarrow> u32" where
  "divisor_of cpb = max (DIV_ROUND_UP (clocks_to_sample_of cpb) 256)
                        (DIV_ROUND_UP (clocks_after_sample_of cpb) 128)"

text \<open>
  The register fields hold the specification's timing parameters, read as unsigned
  numbers.
\<close>

definition params_agree :: "CAN_NBTP_Type \<Rightarrow> timing_parameters \<Rightarrow> bool" where
  "params_agree r p =
     (uint (NTSEG1 r) = segment1_length p \<and> uint (NTSEG2 r) = segment2_length p \<and>
      uint (NBRP r) = prescaler p \<and> uint (NSJW r) = sync_jump_width p)"

text \<open>
  The bounds of the specification's first testable property:
  \<open>segment1_length \<ge> 1\<close>, \<open>segment2_length \<ge> 1\<close>,
  \<open>0 \<le> sync_jump_width \<le> segment2_length + 1\<close>.
\<close>

definition timing_valid :: "CAN_NBTP_Type \<Rightarrow> bool" where
  "timing_valid r =
     (1 \<le> unat (NTSEG1 r) \<and> 1 \<le> unat (NTSEG2 r) \<and>
      0 \<le> unat (NSJW r) \<and> unat (NSJW r) \<le> unat (NTSEG2 r) + 1)"

text \<open>The value a call returns, if it returns.\<close>

definition returned :: "fault + (int \<times> machine) \<Rightarrow> int option" where
  "returned r = (case r of Inl f \<Rightarrow> None | Inr (v, m) \<Rightarrow> Some v)"

text \<open>
  The two constructors, \<open>CANSAME5x(TX_PIN, RX_PIN) : _tx(TX_PIN), _rx(RX_PIN)\<close> and, on
  a board that defines no \<open>PIN_CAN_TX\<close>, \<open>CANSAME5x() : _tx(-1)\<close>, applied to an object
  whose other members are left as they are.
\<close>

definition CANSAME5x_pins :: "int \<Rightarrow> int \<Rightarrow> CANSAME5x \<Rightarrow> CANSAME5x" where
  "CANSAME5x_pins TX_PIN RX_PIN self = self\<lparr>this_tx := TX_PIN, this_rx := RX_PIN\<rparr>"

definition CANSAME5x_default :: "CANSAME5x \<Rightarrow> CANSAME5x" where
  "CANSAME5x_default self = self\<lparr>this_tx := - 1\<rparr>"

text \<open>Concrete configurations for the worked examples.\<close>

definition nbtp_zero :: CAN_NBTP_Type where
  "nbtp_zero = \<lparr>NTSEG2 = 0, NTSEG1 = 0, NBRP = 0, NSJW = 0\<rparr>"

definition blank_object :: CANSAME5x where
  "blank_object =
     \<lparr>this_tx = 0, this_rx = 0, this_idx = 0, this_hw = Unset, this_state = Unset,
      this_txId = 0, this_txExtended = False, this_txRtr = False, this_txLength = 0,
      this_txData = replicate 8 0, this_rxId = 0, this_rxExtended = False,
      this_rxRtr = False, this_rxDlc = 0, this_rxLength = 0, this_rxIndex = 0,
      this_rxData = replicate 8 0\<rparr>"

definition reset_Can :: Can where
  "reset_Can =
     \<lparr>CCCR_INIT = True, CCCR_CCE = False, TXESC_TBDS = DATA8, TXBC_TBSA = None,
      TXBC_NDTB = 0, TXBC_TFQM = False, RXESC_F0DS = DATA8, RXESC_F1DS = DATA8,
      RXESC_RBDS = DATA8, RXF0C_F0SA = None, RXF0C_F0S = 0, GFC_RRFE = False,
      GFC_ANFS = ANF_RXF0, GFC_ANFE = ANF_RXF0, SIDFC_LSS = 0, SIDFC_FLSSA = None,
      XIDFC_LSE = 0, XIDFC_FLESA = None, NBTP = nbtp_zero, TXBAR = 0, RXF0S_F0FL = 0,
      RXF0S_F0GI = 0, RXF0A_F0AI = 0\<rparr>"

definition power_on :: "CANSAME5x \<Rightarrow> machine" where
  "power_on self =
     \<lparr>irq = \<lparr>cpu_irq_critical_section_counter = 0, cpu_irq_prev_interrupt_state = 0,
             PRIMASK = 0\<rparr>,
      hw = reset_Can, can_state = zero_can_state, dev = self,
      instances = (\<lambda>i. False), pin_function = (\<lambda>p. PIO_UNASSIGNED),
      PCHCTRL_GEN = GCLK_PCHCTRL_GEN_GCLK0, PCHCTRL_CHEN = False, overrun = 0\<rparr>"

text \<open>
  A controller on pins 4 and 5 after a successful \<open>begin(500000)\<close> at 48 MHz, its
  receive FIFO empty, no critical section entered, interrupts enabled.
\<close>

definition begun_machine :: machine where
  "begun_machine =
     begin_configure \<lparr>NTSEG2 = 11, NTSEG1 = 82, NBRP = 0, NSJW = 3\<rparr>
       (power_on (CANSAME5x_pins 4 5 blank_object))"

text \<open>
  The same controller with one received frame queued in slot 0 of the receive FIFO: a
  remote-request frame with standard identifier \<open>0x123\<close> and the given length code.
\<close>

definition remote_request :: "u32 \<Rightarrow> canSAME5x_rx_fifo" where
  "remote_request dlc =
     \<lparr>rxf0_ID = push_bit 18 0x123, rxf0_XTD = False, rxf0_RTR = True, rxf1_DLC = dlc,
      rx_data = replicate 8 0\<rparr>"

definition queued_machine :: "canSAME5x_rx_fifo \<Rightarrow> machine" where
  "queued_machine frame =
     begun_machine
       \<lparr>hw := (hw begun_machine)\<lparr>RXF0S_F0FL := 1, RXF0S_F0GI := 0\<rparr>,
        can_state := (can_state begun_machine)
          \<lparr>rx_fifo := (rx_fifo (can_state begun_machine))(0 := frame)\<rparr>\<rparr>"

text \<open>
  A stand-in for \<open>CANControllerClass::endPacket\<close> on a packet that was begun: it
  returns 1 and leaves the object as it is. The completion indicator that never sets
  reads as 0 at every poll.
\<close>

definition packet_begun :: "CANSAME5x \<Rightarrow> int \<times> CANSAME5x" where
  "packet_begun self = (1, self)"

definition never_completes :: "nat \<Rightarrow> u32" where
  "never_completes i = 0"

text \<open>A data frame with standard identifier \<open>0x123\<close>, for the receive FIFO.\<close>

definition data_frame :: "u32 \<Rightarrow> 8 word list \<Rightarrow> canSAME5x_rx_fifo" where
  "data_frame dlc payload =
     \<lparr>rxf0_ID = push_bit 18 0x123, rxf0_XTD = False, rxf0_RTR = False, rxf1_DLC = dlc,
      rx_data = payload\<rparr>"

text \<open>The range the specification gives for a returned frame length: 0, or 1 to 8.\<close>

definition in_length_range :: "int \<Rightarrow> bool" where
  "in_length_range v = (v = 0 \<or> (1 \<le> v \<and> v \<le> 8))"

text \<open>
  The recursive equations of the two searches are unfolded by hand where needed.
\<close>

declare divisor_search.simps [simp del]

declare wait_for_tx.simps [simp del]

section \<open>Rounding, the divisor search and 32-bit arithmetic\<close>

lemma spec_ceil_le_iff: "0 < d \<Longrightarrow> spec_ceil a d \<le> k \<longleftrightarrow> a \<le> k * d"
proof -
  assume d: "0 < d"
  have "spec_ceil a d \<le> k \<longleftrightarrow> (a + d - 1) div d < Suc k"
    by (simp add: spec_ceil_def less_Suc_eq_le)
  also have "\<dots> \<longleftrightarrow> a + d - 1 < Suc k * d"
    using d by (simp add: div_less_iff_less_mult)
  also have "\<dots> \<longleftrightarrow> a \<le> k * d"
    using d by auto
  finally show ?thesis .
qed

lemma div_round_nat: "(a + b div 2) div b = (2 * a + b) div (2 * (b::nat))"
proof -
  have "(2 * a + b) div (2 * b) = ((2 * a + b) div 2) div b"
    by (simp add: div_mult2_eq)
  also have "(2 * a + b) div 2 = a + b div 2"
    by simp
  finally show ?thesis by simp
qed

lemma spec_round_real: "int (spec_round a b) = \<lfloor>real a / real b + 1 / 2\<rfloor>" if "0 < b"
proof -
  have "real a / real b + 1 / 2 = real (2 * a + b) / real (2 * b)"
    using that by (simp add: field_simps)
  thus ?thesis
    by (simp only: spec_round_def floor_divide_of_nat_eq)
qed

lemma spec_ceil_real: "int (spec_ceil a b) = \<lceil>real a / real b\<rceil>" if "0 < b"
proof -
  define q where "q = spec_ceil a b"
  have up: "a \<le> q * b"
    using spec_ceil_le_iff [OF that, of a q] by (simp add: q_def)
  have low: "(q - 1) * b < a" if "0 < q"
  proof -
    have "\<not> spec_ceil a b \<le> q - 1" using \<open>0 < q\<close> by (simp add: q_def)
    thus ?thesis using spec_ceil_le_iff [OF \<open>0 < b\<close>, of a "q - 1"] by simp
  qed
  show ?thesis
  proof (cases "q = 0")
    case True
    hence "a = 0" using up by simp
    thus ?thesis using True by (simp add: q_def)
  next
    case False
    hence q: "0 < q" by simp
    have "real ((q - 1) * b) < real a" using low [OF q] by (simp only: of_nat_less_iff)
    hence "(real q - 1) * real b < real a" using q by (simp add: of_nat_diff)
    hence l: "real_of_int (int q) - 1 < real a / real b"
      using \<open>0 < b\<close> by (simp add: pos_less_divide_eq)
    have "real a \<le> real (q * b)" using up by (simp only: of_nat_le_iff)
    hence u: "real a / real b \<le> real_of_int (int q)"
      using \<open>0 < b\<close> by (simp add: pos_divide_le_eq)
    have "\<lceil>real a / real b\<rceil> = int q"
      by (rule ceiling_unique) (use l u in auto)
    thus ?thesis by (simp add: q_def)
  qed
qed

lemma wrap2_nat:
  fixes p T A :: nat
  assumes p: "p < 4294967296" and w: "4294967296 \<le> p * 7 + 4"
    and T: "T = ((p * 7 + 4) mod 4294967296) div 8"
    and A: "A = p - T"
    and D1: "((T + 255) mod 4294967296) div 256 \<le> 32"
    and D2: "((A + 127) mod 4294967296) div 128 \<le> 32"
  shows False
proof -
  define r where "r = (p * 7 + 4) mod 4294967296"
  define q where "q = (p * 7 + 4) div 4294967296"
  have qr: "p * 7 + 4 = q * 4294967296 + r"
    by (simp add: q_def r_def)
  have r: "r < 4294967296" by (simp add: r_def)
  have Tr: "T = r div 8" by (simp add: T r_def)
  hence T29: "T < 536870912" using r by simp
  hence "(T + 255) mod 4294967296 = T + 255" by simp
  hence "(T + 255) div 256 \<le> 32" using D1 by simp
  hence T8: "T \<le> 8192" by simp
  have r8: "r < 65544" using Tr T8 by simp
  have A1: "613558564 \<le> A" using w T8 A by simp
  have AP: "A \<le> p" using A by simp
  have "4294967296 \<le> A + 127"
  proof (rule ccontr)
    assume "\<not> 4294967296 \<le> A + 127"
    hence "(A + 127) mod 4294967296 = A + 127" by simp
    hence "(A + 127) div 128 \<le> 32" using D2 by simp
    thus False using A1 by simp
  qed
  hence p2: "4294967169 \<le> p" using AP by simp
  have "q * 4294967296 < 7 * 4294967296" using qr p by simp
  hence q7: "q < 7" by simp
  have "6 * 4294967296 < q * 4294967296" using qr p2 r8 by simp
  hence "6 < q" by simp
  thus False using q7 by simp
qed

lemma compute_nbtp_alt:
  "compute_nbtp W can_frequency baudrate result =
     (if baudrate = 0 then Inl Division_By_Zero
      else if divisor_of (DIV_ROUND can_frequency baudrate) > 32 then Inr (False, result)
      else if divisor_of (DIV_ROUND can_frequency baudrate) = 0 then Inl Division_By_Zero
      else Inr (True, result
        \<lparr>NTSEG1 := bit_field (NTSEG1_bits W)
            (DIV_ROUND (clocks_to_sample_of (DIV_ROUND can_frequency baudrate))
               (divisor_of (DIV_ROUND can_frequency baudrate)) - 2),
         NTSEG2 := bit_field (NTSEG2_bits W)
            (DIV_ROUND (clocks_after_sample_of (DIV_ROUND can_frequency baudrate))
               (divisor_of (DIV_ROUND can_frequency baudrate)) - 1),
         NBRP := bit_field (NBRP_bits W) (divisor_of (DIV_ROUND can_frequency baudrate) - 1),
         NSJW := bit_field (NSJW_bits W)
            (DIV_ROUND (clocks_after_sample_of (DIV_ROUND can_frequency baudrate))
               (divisor_of (DIV_ROUND can_frequency baudrate) * 4))\<rparr>))"
  by (simp add: compute_nbtp_def Let_def divisor_of_def clocks_after_sample_of_def
      clocks_to_sample_of_def)

lemma unat_DIV_ROUND:
  "unat a + unat b div 2 < 2 ^ 32 \<Longrightarrow> unat (DIV_ROUND a b) = spec_round (unat a) (unat b)"
proof -
  assume nw: "unat a + unat b div 2 < 2 ^ 32"
  have h: "unat (b div 2) = unat b div 2" by (simp add: unat_div)
  have "unat a + unat (b div 2) < 2 ^ LENGTH(32)" using nw h by simp
  hence "unat (a + b div 2) = unat a + unat (b div 2)"
    by (rule unat_add_lem [THEN iffD1])
  hence "unat (DIV_ROUND a b) = (unat a + unat b div 2) div unat b"
    by (simp add: DIV_ROUND_def unat_div h)
  thus ?thesis by (simp add: spec_round_def div_round_nat)
qed

lemma DIV_ROUND_wrap:
  assumes "baud \<noteq> 0" and "2 ^ 32 \<le> unat cf + unat baud div 2"
  shows "DIV_ROUND cf (baud :: u32) = 0"
proof -
  have h: "unat (baud div 2) = unat baud div 2" by (simp add: unat_div)
  have cf: "unat cf < 2 ^ 32" using unsigned_less [of cf] by simp
  have bd: "unat baud < 2 ^ 32" using unsigned_less [of baud] by simp
  have "unat (cf + baud div 2) = (unat cf + unat baud div 2) mod 2 ^ 32"
    by (simp add: unat_word_ariths h mod_add_right_eq)
  also have "\<dots> = unat cf + unat baud div 2 - 2 ^ 32"
    using assms(2) cf bd by (simp add: mod_if)
  also have "\<dots> < unat baud" using cf bd assms by simp
  finally have "unat (cf + baud div 2) div unat baud = 0" by simp
  hence "unat (DIV_ROUND cf baud) = 0" by (simp add: DIV_ROUND_def unat_div)
  thus ?thesis by (simp add: unat_eq_zero)
qed

lemma divisor_of_zero: "divisor_of 0 = 0"
  by (simp add: divisor_of_def clocks_after_sample_of_def clocks_to_sample_of_def
      DIV_ROUND_def DIV_ROUND_UP_def)

lemma unat_clocks_to_sample_of:
  "unat (clocks_to_sample_of cpb) = ((unat cpb * 7 + 4) mod 2 ^ 32) div 8"
proof -
  have "unat (cpb * 7 + 4) = (unat cpb * 7 + 4) mod 2 ^ 32"
    by (simp add: unat_word_ariths mod_add_left_eq)
  thus ?thesis
    by (simp add: clocks_to_sample_of_def DIV_ROUND_def unat_div)
qed

lemma clocks_to_sample_of_le: "unat (clocks_to_sample_of cpb) \<le> unat cpb"
proof (cases "unat cpb * 7 + 4 < 2 ^ 32")
  case True
  hence "unat (clocks_to_sample_of cpb) = (unat cpb * 7 + 4) div 8"
    by (simp add: unat_clocks_to_sample_of)
  thus ?thesis by simp
next
  case False
  have "(unat cpb * 7 + 4) mod 4294967296 < 4294967296" by simp
  hence "unat (clocks_to_sample_of cpb) < 536870912"
    by (simp add: unat_clocks_to_sample_of)
  thus ?thesis using False by simp
qed

lemma unat_clocks_after_sample_of:
  "unat (clocks_after_sample_of cpb) = unat cpb - unat (clocks_to_sample_of cpb)"
proof -
  have "clocks_to_sample_of cpb \<le> cpb"
    by (simp add: word_le_nat_alt clocks_to_sample_of_le)
  thus ?thesis by (simp add: clocks_after_sample_of_def unat_sub)
qed

lemma unat_DIV_ROUND_UP_256:
  "unat (DIV_ROUND_UP a 256) = ((unat a + 255) mod 2 ^ 32) div 256"
proof -
  have "DIV_ROUND_UP a 256 = (255 + a) div 256" by (simp add: DIV_ROUND_UP_def)
  moreover have "unat (255 + a) = (unat a + 255) mod 2 ^ 32"
  proof -
    have "unat (255 + a) = (unat (255 :: u32) + unat a) mod 2 ^ LENGTH(32)"
      by (rule unat_word_ariths)
    also have "unat (255 :: u32) + unat a = unat a + 255" by simp
    finally show ?thesis by simp
  qed
  ultimately show ?thesis by (simp add: unat_div)
qed

lemma unat_DIV_ROUND_UP_128:
  "unat (DIV_ROUND_UP a 128) = ((unat a + 127) mod 2 ^ 32) div 128"
proof -
  have "DIV_ROUND_UP a 128 = (127 + a) div 128" by (simp add: DIV_ROUND_UP_def)
  moreover have "unat (127 + a) = (unat a + 127) mod 2 ^ 32"
  proof -
    have "unat (127 + a) = (unat (127 :: u32) + unat a) mod 2 ^ LENGTH(32)"
      by (rule unat_word_ariths)
    also have "unat (127 :: u32) + unat a = unat a + 127" by simp
    finally show ?thesis by simp
  qed
  ultimately show ?thesis by (simp add: unat_div)
qed

lemma divisor_of_le_32_iff:
  "divisor_of cpb \<le> 32 \<longleftrightarrow>
     unat (DIV_ROUND_UP (clocks_to_sample_of cpb) 256) \<le> 32 \<and>
     unat (DIV_ROUND_UP (clocks_after_sample_of cpb) 128) \<le> 32"
proof -
  have "divisor_of cpb \<le> 32 \<longleftrightarrow>
      DIV_ROUND_UP (clocks_to_sample_of cpb) 256 \<le> 32 \<and>
      DIV_ROUND_UP (clocks_after_sample_of cpb) 128 \<le> 32"
    by (simp add: divisor_of_def)
  thus ?thesis by (simp add: word_le_nat_alt)
qed

lemma divisor_of_wrap:
  assumes "2 ^ 32 \<le> unat cpb * 7 + 4"
  shows "32 < divisor_of cpb"
proof (rule ccontr)
  assume "\<not> 32 < divisor_of cpb"
  hence le: "divisor_of cpb \<le> 32" by simp
  have p: "unat cpb < 4294967296" using unsigned_less [of cpb] by simp
  show False
  proof (rule wrap2_nat [OF p])
    show "4294967296 \<le> unat cpb * 7 + 4" using assms by simp
    show "unat (clocks_to_sample_of cpb) = (unat cpb * 7 + 4) mod 4294967296 div 8"
      by (simp add: unat_clocks_to_sample_of)
    show "unat (clocks_after_sample_of cpb) = unat cpb - unat (clocks_to_sample_of cpb)"
      by (rule unat_clocks_after_sample_of)
    show "(unat (clocks_to_sample_of cpb) + 255) mod 4294967296 div 256 \<le> 32"
      using le by (simp add: divisor_of_le_32_iff unat_DIV_ROUND_UP_256)
    show "(unat (clocks_after_sample_of cpb) + 127) mod 4294967296 div 128 \<le> 32"
      using le by (simp add: divisor_of_le_32_iff unat_DIV_ROUND_UP_128)
  qed
qed

lemma unat_divisor_of:
  assumes "unat cpb * 7 + 4 < 2 ^ 32"
  shows "unat (clocks_to_sample_of cpb) = spec_round (unat cpb * 7) 8"
    and "unat (clocks_after_sample_of cpb) = unat cpb - spec_round (unat cpb * 7) 8"
    and "unat (divisor_of cpb) =
           max (spec_ceil (spec_round (unat cpb * 7) 8) 256)
               (spec_ceil (unat cpb - spec_round (unat cpb * 7) 8) 128)"
proof -
  have "unat (clocks_to_sample_of cpb) = (unat cpb * 7 + 4) div 8"
    using assms by (simp add: unat_clocks_to_sample_of)
  also have "\<dots> = spec_round (unat cpb * 7) 8"
    by (simp add: spec_round_def)
  finally show T: "unat (clocks_to_sample_of cpb) = spec_round (unat cpb * 7) 8" .
  show A: "unat (clocks_after_sample_of cpb) = unat cpb - spec_round (unat cpb * 7) 8"
    by (simp add: unat_clocks_after_sample_of T)
  have Tb: "unat (clocks_to_sample_of cpb) + 255 < 4294967296"
    using clocks_to_sample_of_le [of cpb] assms by simp
  have Ab: "unat (clocks_after_sample_of cpb) + 127 < 4294967296"
    using assms by (simp add: unat_clocks_after_sample_of)
  have "unat (divisor_of cpb) =
      max (unat (DIV_ROUND_UP (clocks_to_sample_of cpb) 256))
          (unat (DIV_ROUND_UP (clocks_after_sample_of cpb) 128))"
    by (simp add: divisor_of_def max_def word_le_nat_alt)
  also have "unat (DIV_ROUND_UP (clocks_to_sample_of cpb) 256) =
      spec_ceil (unat (clocks_to_sample_of cpb)) 256"
    using Tb by (simp add: unat_DIV_ROUND_UP_256 spec_ceil_def)
  also have "unat (DIV_ROUND_UP (clocks_after_sample_of cpb) 128) =
      spec_ceil (unat (clocks_after_sample_of cpb)) 128"
    using Ab by (simp add: unat_DIV_ROUND_UP_128 spec_ceil_def)
  finally show "unat (divisor_of cpb) =
           max (spec_ceil (spec_round (unat cpb * 7) 8) 256)
               (spec_ceil (unat cpb - spec_round (unat cpb * 7) 8) 128)"
    by (simp only: T A)
qed

lemma divisor_ok_iff:
  "0 < d \<Longrightarrow> divisor_ok cts cas d \<longleftrightarrow> cts \<le> 256 * d \<and> cas \<le> 128 * d"
  by (simp add: divisor_ok_def spec_ceil_le_iff)

lemma divisor_ok_iff_ceil:
  "0 < d \<Longrightarrow> divisor_ok cts cas d \<longleftrightarrow> spec_ceil cts 256 \<le> d \<and> spec_ceil cas 128 \<le> d"
  by (simp add: divisor_ok_iff spec_ceil_le_iff [of 256] spec_ceil_le_iff [of 128] mult.commute)

lemma divisor_search_eq:
  "1 \<le> d \<Longrightarrow> d \<le> max 1 (max (spec_ceil cts 256) (spec_ceil cas 128)) \<Longrightarrow>
   divisor_search cts cas d = max 1 (max (spec_ceil cts 256) (spec_ceil cas 128))"
proof (induction cts cas d rule: divisor_search.induct)
  case (1 cts cas d)
  let ?m = "max 1 (max (spec_ceil cts 256) (spec_ceil cas 128))"
  have d: "0 < d" using "1.prems" by simp
  show ?case
  proof (cases "divisor_ok cts cas d")
    case True
    hence "spec_ceil cts 256 \<le> d \<and> spec_ceil cas 128 \<le> d"
      using d by (simp add: divisor_ok_iff_ceil)
    hence "d = ?m" using "1.prems" by linarith
    thus ?thesis using True by (subst divisor_search.simps) simp
  next
    case False
    hence "d < max (spec_ceil cts 256) (spec_ceil cas 128)"
      using d by (simp add: divisor_ok_iff_ceil) linarith
    hence "d + 1 \<le> ?m" by linarith
    hence "divisor_search cts cas (d + 1) = ?m"
      using False by (intro "1.IH") simp_all
    thus ?thesis using False by (subst divisor_search.simps) simp
  qed
qed

lemma smallest_divisor_eq:
  "smallest_divisor cts cas = max 1 (max (spec_ceil cts 256) (spec_ceil cas 128))"
  unfolding smallest_divisor_def by (rule divisor_search_eq) simp_all

lemma smallest_divisor_least:
  "1 \<le> smallest_divisor cts cas"
  "divisor_ok cts cas (smallest_divisor cts cas)"
  "1 \<le> d \<Longrightarrow> divisor_ok cts cas d \<Longrightarrow> smallest_divisor cts cas \<le> d"
proof -
  show "1 \<le> smallest_divisor cts cas" by (simp add: smallest_divisor_eq)
  have "spec_ceil cts 256 \<le> smallest_divisor cts cas"
    and "spec_ceil cas 128 \<le> smallest_divisor cts cas"
    unfolding smallest_divisor_eq by linarith+
  thus "divisor_ok cts cas (smallest_divisor cts cas)"
    using \<open>1 \<le> smallest_divisor cts cas\<close> by (simp add: divisor_ok_iff_ceil)
  show "smallest_divisor cts cas \<le> d" if "1 \<le> d" "divisor_ok cts cas d"
  proof -
    have "spec_ceil cts 256 \<le> d \<and> spec_ceil cas 128 \<le> d"
      using that by (simp add: divisor_ok_iff_ceil)
    thus ?thesis using that(1) unfolding smallest_divisor_eq by linarith
  qed
qed

lemma word_of_unat: "x = word_of_nat n" if "unat (x :: u32) = n"
proof -
  have "word_of_nat (unat x) = x" by simp
  thus ?thesis using that by simp
qed

lemma unat_bit_field_sub:
  assumes "k \<le> n" and "n < 2 ^ 32" and "n - k < 2 ^ w"
  shows "unat (bit_field w (word_of_nat n - word_of_nat k)) = n - k"
proof -
  have "(word_of_nat n :: u32) - word_of_nat k = word_of_nat (n - k)"
    using assms(1) by simp
  moreover have "unat (word_of_nat (n - k) :: u32) = n - k"
    using assms(2) by (simp add: unat_of_nat)
  ultimately have "unat (bit_field w (word_of_nat n - word_of_nat k)) = take_bit w (n - k)"
    by (simp add: bit_field_def unsigned_take_bit_eq)
  thus ?thesis using assms(3) by (simp add: take_bit_nat_eq_self)
qed

lemma compute_nbtp_nowrap:
  assumes b: "baudrate \<noteq> 0" and d32: "\<not> 32 < divisor_of (DIV_ROUND can_frequency baudrate)"
    and d0: "divisor_of (DIV_ROUND can_frequency baudrate) \<noteq> 0"
  shows "unat can_frequency + unat baudrate div 2 < 2 ^ 32"
    and "unat (DIV_ROUND can_frequency baudrate) * 7 + 4 < 2 ^ 32"
proof -
  show "unat can_frequency + unat baudrate div 2 < 2 ^ 32"
  proof (rule ccontr)
    assume "\<not> unat can_frequency + unat baudrate div 2 < 2 ^ 32"
    hence "DIV_ROUND can_frequency baudrate = 0"
      using b by (intro DIV_ROUND_wrap) simp_all
    thus False using d0 by (simp add: divisor_of_zero)
  qed
  show "unat (DIV_ROUND can_frequency baudrate) * 7 + 4 < 2 ^ 32"
  proof (rule ccontr)
    assume "\<not> unat (DIV_ROUND can_frequency baudrate) * 7 + 4 < 2 ^ 32"
    hence "32 < divisor_of (DIV_ROUND can_frequency baudrate)"
      by (intro divisor_of_wrap) simp
    thus False using d32 by simp
  qed
qed

lemma spec_of_code:
  assumes nw1: "unat can_frequency + unat baudrate div 2 < 2 ^ 32"
    and nw2: "unat (DIV_ROUND can_frequency baudrate) * 7 + 4 < 2 ^ 32"
  shows "unat (DIV_ROUND can_frequency baudrate) =
           spec_clocks_per_bit (unat can_frequency) (unat baudrate)"
    and "unat (clocks_to_sample_of (DIV_ROUND can_frequency baudrate)) =
           spec_clocks_to_sample (unat can_frequency) (unat baudrate)"
    and "unat (clocks_after_sample_of (DIV_ROUND can_frequency baudrate)) =
           spec_clocks_after_sample (unat can_frequency) (unat baudrate)"
    and "max 1 (unat (divisor_of (DIV_ROUND can_frequency baudrate))) =
           spec_divisor (unat can_frequency) (unat baudrate)"
proof -
  show P: "unat (DIV_ROUND can_frequency baudrate) =
           spec_clocks_per_bit (unat can_frequency) (unat baudrate)"
    using nw1 by (simp add: spec_clocks_per_bit_def unat_DIV_ROUND)
  show T: "unat (clocks_to_sample_of (DIV_ROUND can_frequency baudrate)) =
           spec_clocks_to_sample (unat can_frequency) (unat baudrate)"
    using unat_divisor_of(1) [OF nw2] by (simp add: spec_clocks_to_sample_def P)
  show A: "unat (clocks_after_sample_of (DIV_ROUND can_frequency baudrate)) =
           spec_clocks_after_sample (unat can_frequency) (unat baudrate)"
    using unat_divisor_of(2) [OF nw2]
    by (simp add: spec_clocks_after_sample_def spec_clocks_to_sample_def P)
  show "max 1 (unat (divisor_of (DIV_ROUND can_frequency baudrate))) =
           spec_divisor (unat can_frequency) (unat baudrate)"
    using unat_divisor_of(3) [OF nw2]
    by (simp add: spec_divisor_def smallest_divisor_eq spec_clocks_after_sample_def
        spec_clocks_to_sample_def P)
qed


lemma spec_round_le: "0 < d \<Longrightarrow> a \<le> k * d \<Longrightarrow> spec_round a d \<le> k"
proof -
  assume d: "0 < d" and a: "a \<le> k * d"
  have "2 * a + d < Suc k * (2 * d)" using d a by simp
  hence "(2 * a + d) div (2 * d) < Suc k" using d by (simp add: div_less_iff_less_mult)
  thus ?thesis by (simp add: spec_round_def)
qed

lemma spec_round_ge: "0 < d \<Longrightarrow> k * d \<le> a \<Longrightarrow> k \<le> spec_round a d"
proof -
  assume d: "0 < d" and a: "k * d \<le> a"
  have "k * (2 * d) \<le> 2 * a + d" using a by simp
  hence "k \<le> (2 * a + d) div (2 * d)" using d by (simp add: less_eq_div_iff_mult_less_eq)
  thus ?thesis by (simp add: spec_round_def)
qed

lemma compute_nbtp_success:
  assumes succ: "compute_nbtp W can_frequency baudrate result = Inr (True, r')"
  defines "T \<equiv> spec_clocks_to_sample (unat can_frequency) (unat baudrate)"
    and "A \<equiv> spec_clocks_after_sample (unat can_frequency) (unat baudrate)"
    and "d \<equiv> spec_divisor (unat can_frequency) (unat baudrate)"
  shows "1 \<le> d" and "d \<le> 32" and "T \<le> 256 * d" and "A \<le> 128 * d"
    and "T < 2 ^ 30" and "A < 2 ^ 30"
    and "r' = result
        \<lparr>NTSEG1 := bit_field (NTSEG1_bits W) (word_of_nat (spec_round T d) - 2),
         NTSEG2 := bit_field (NTSEG2_bits W) (word_of_nat (spec_round A d) - 1),
         NBRP := bit_field (NBRP_bits W) (word_of_nat d - 1),
         NSJW := bit_field (NSJW_bits W) (word_of_nat (spec_round A (d * 4)))\<rparr>"
proof -
  let ?cpb = "DIV_ROUND can_frequency baudrate"
  let ?D = "divisor_of ?cpb"
  from succ have b: "baudrate \<noteq> 0" and d32: "\<not> 32 < ?D" and d0: "?D \<noteq> 0"
    by (auto simp: compute_nbtp_alt split: if_splits)
  note nw = compute_nbtp_nowrap [OF b d32 d0]
  note sp = spec_of_code [OF nw]
  have D1: "1 \<le> unat ?D" using d0 by (simp add: unat_gt_0 Suc_le_eq)
  hence Dd: "unat ?D = d" using sp(4) by (simp add: d_def)
  show "1 \<le> d" using D1 Dd by simp
  have "unat ?D \<le> unat (32 :: u32)" using d32 by (simp add: word_le_nat_alt not_less)
  thus "d \<le> 32" using Dd by simp
  have ok: "divisor_ok T A d"
    unfolding T_def A_def d_def spec_divisor_def by (rule smallest_divisor_least(2))
  thus "T \<le> 256 * d" and "A \<le> 128 * d"
    using \<open>1 \<le> d\<close> by (simp_all add: divisor_ok_iff)
  have TP: "unat (clocks_to_sample_of ?cpb) \<le> unat ?cpb" by (rule clocks_to_sample_of_le)
  thus T29: "T < 2 ^ 30" using nw(2) sp(2) by (simp add: T_def)
  have "unat (clocks_after_sample_of ?cpb) \<le> unat ?cpb"
    by (simp add: unat_clocks_after_sample_of)
  thus A29: "A < 2 ^ 30" using nw(2) sp(3) by (simp add: A_def)
  have "unat (DIV_ROUND (clocks_to_sample_of ?cpb) ?D) = spec_round T d"
    using T29 \<open>d \<le> 32\<close> unat_DIV_ROUND [of "clocks_to_sample_of ?cpb" ?D]
    by (simp add: sp(2) Dd T_def)
  hence s1: "DIV_ROUND (clocks_to_sample_of ?cpb) ?D = word_of_nat (spec_round T d)"
    by (rule word_of_unat)
  have "unat (DIV_ROUND (clocks_after_sample_of ?cpb) ?D) = spec_round A d"
    using A29 \<open>d \<le> 32\<close> unat_DIV_ROUND [of "clocks_after_sample_of ?cpb" ?D]
    by (simp add: sp(3) Dd A_def)
  hence s2: "DIV_ROUND (clocks_after_sample_of ?cpb) ?D = word_of_nat (spec_round A d)"
    by (rule word_of_unat)
  have D4: "unat (?D * 4) = d * 4"
    using \<open>d \<le> 32\<close> Dd by (simp add: unat_word_ariths)
  have "unat (DIV_ROUND (clocks_after_sample_of ?cpb) (?D * 4)) = spec_round A (d * 4)"
    using A29 \<open>d \<le> 32\<close> unat_DIV_ROUND [of "clocks_after_sample_of ?cpb" "?D * 4"]
    by (simp add: sp(3) D4 A_def)
  hence s3: "DIV_ROUND (clocks_after_sample_of ?cpb) (?D * 4) = word_of_nat (spec_round A (d * 4))"
    by (rule word_of_unat)
  have s4: "?D = word_of_nat d" using Dd by (rule word_of_unat)
  from succ b d32 d0 have "r' = result
        \<lparr>NTSEG1 := bit_field (NTSEG1_bits W) (DIV_ROUND (clocks_to_sample_of ?cpb) ?D - 2),
         NTSEG2 := bit_field (NTSEG2_bits W) (DIV_ROUND (clocks_after_sample_of ?cpb) ?D - 1),
         NBRP := bit_field (NBRP_bits W) (?D - 1),
         NSJW := bit_field (NSJW_bits W) (DIV_ROUND (clocks_after_sample_of ?cpb) (?D * 4))\<rparr>"
    by (simp add: compute_nbtp_alt)
  thus "r' = result
        \<lparr>NTSEG1 := bit_field (NTSEG1_bits W) (word_of_nat (spec_round T d) - 2),
         NTSEG2 := bit_field (NTSEG2_bits W) (word_of_nat (spec_round A d) - 1),
         NBRP := bit_field (NBRP_bits W) (word_of_nat d - 1),
         NSJW := bit_field (NSJW_bits W) (word_of_nat (spec_round A (d * 4)))\<rparr>"
    unfolding s1 s2 s3 by (simp only: s4 [symmetric])
qed

lemmas nbtp_eval = compute_nbtp_def DIV_ROUND_def DIV_ROUND_UP_def bit_field_def
  same5x_def nbtp_zero_def Let_def take_bit_eq_mod

lemmas spec_eval = spec_compute_def spec_divisor_def spec_clocks_after_sample_def
  spec_clocks_to_sample_def spec_clocks_per_bit_def smallest_divisor_eq spec_round_def
  spec_ceil_def Let_def

lemma spec_round_quarter_le: "spec_round a (d * 4) \<le> spec_round a d" if "0 < d"
proof -
  define k where "k = spec_round a d"
  define m where "m = k * d"
  have "2 * a + d < Suc k * (2 * d)"
    unfolding k_def spec_round_def using that
    by (metis dividend_less_div_times mult.commute mult_2 add_gr_0 mult_Suc)
  hence "2 * a + d < 2 * m + 2 * d" by (simp add: m_def)
  moreover have "Suc k * (2 * (d * 4)) = 8 * m + 8 * d" by (simp add: m_def)
  ultimately have "2 * a + d * 4 < Suc k * (2 * (d * 4))" by simp
  hence "(2 * a + d * 4) div (2 * (d * 4)) < Suc k"
    using that by (simp add: div_less_iff_less_mult)
  thus ?thesis by (simp add: spec_round_def k_def)
qed

lemma spec_round_8_bounds:
  "8 * spec_round (P * 7) 8 \<le> 7 * P + 4" "7 * P + 4 < 8 * spec_round (P * 7) 8 + 8"
proof -
  have e: "spec_round (P * 7) 8 = (7 * P + 4) div 8"
    by (simp add: spec_round_def)
  show "8 * spec_round (P * 7) 8 \<le> 7 * P + 4" unfolding e by simp
  show "7 * P + 4 < 8 * spec_round (P * 7) 8 + 8" unfolding e by simp
qed

lemma segments_large:
  fixes P T A d :: nat
  assumes P: "13 \<le> P" and T1: "8 * T \<le> 7 * P + 4" and T2: "7 * P + 4 < 8 * T + 8"
    and A: "A = P - T" and d1: "1 \<le> d"
    and least: "\<And>e. 1 \<le> e \<Longrightarrow> T \<le> 256 * e \<Longrightarrow> A \<le> 128 * e \<Longrightarrow> d \<le> e"
  shows "3 * d \<le> T" and "2 * d \<le> A"
proof -
  have TP: "T \<le> P" using T1 by simp
  have A8: "P \<le> 8 * A + 4" using T1 TP A by simp
  have A8': "8 * A < P + 4" using T2 TP A by simp
  have "3 * d \<le> T \<and> 2 * d \<le> A"
  proof (cases "d = 1")
    case True
    thus ?thesis using P T2 A8 by simp
  next
    case False
    hence d2: "2 \<le> d" using d1 by simp
    have "\<not> (T \<le> 256 * (d - 1) \<and> A \<le> 128 * (d - 1))"
    proof
      assume "T \<le> 256 * (d - 1) \<and> A \<le> 128 * (d - 1)"
      hence "d \<le> d - 1" using d2 by (intro least) simp_all
      thus False using d2 by simp
    qed
    hence "256 * (d - 1) < T \<or> 128 * (d - 1) < A" by linarith
    thus ?thesis
    proof
      assume "256 * (d - 1) < T"
      thus ?thesis using d2 A8 T1 by linarith
    next
      assume "128 * (d - 1) < A"
      thus ?thesis using d2 A8' T2 by linarith
    qed
  qed
  thus "3 * d \<le> T" and "2 * d \<le> A" by simp_all
qed

lemma compute_nbtp_False_iff:
  "compute_nbtp W can_frequency baudrate result = Inr (False, r') \<longleftrightarrow>
     baudrate \<noteq> 0 \<and> 32 < divisor_of (DIV_ROUND can_frequency baudrate) \<and> r' = result"
  by (auto simp: compute_nbtp_alt)

section \<open>The driver functions step by step\<close>

lemmas machine_eval = queued_machine_def begun_machine_def begin_configure_def power_on_def
  reset_Can_def zero_can_state_def CANSAME5x_pins_def CANSAME5x_default_def blank_object_def
  remote_request_def data_frame_def nbtp_zero_def Let_def

lemma parsePacket_empty:
  "RXF0S_F0FL (hw m) = 0 \<Longrightarrow>
   parsePacket W m = Inr (0, m\<lparr>irq := cpu_irq_enter_critical (irq m)\<rparr>)"
  by (simp add: parsePacket_def Let_def)

lemma cpu_irq_enter_critical_counter:
  "cpu_irq_critical_section_counter (cpu_irq_enter_critical s) =
     cpu_irq_critical_section_counter s + 1"
  by (simp add: cpu_irq_enter_critical_def Let_def)

lemma parsePacket_empty_counter:
  assumes "RXF0S_F0FL (hw m) = 0" and "parsePacket W m = Inr (v, m')"
  shows "cpu_irq_critical_section_counter (irq m') =
           cpu_irq_critical_section_counter (irq m) + 1"
  using assms by (auto simp: parsePacket_empty cpu_irq_enter_critical_counter)

lemma begun_machine_fifo_empty: "RXF0S_F0FL (hw begun_machine) = 0"
  by (simp add: machine_eval)

lemma begun_machine_irq:
  "irq begun_machine =
     \<lparr>cpu_irq_critical_section_counter = 0, cpu_irq_prev_interrupt_state = 0, PRIMASK = 0\<rparr>"
  by (simp add: machine_eval)

lemma queued_machine_facts:
  "RXF0S_F0FL (hw (queued_machine frame)) = 1"
  "RXF0S_F0GI (hw (queued_machine frame)) = 0"
  "rx_fifo (can_state (queued_machine frame)) 0 = frame"
  "this_rxData (dev (queued_machine frame)) = replicate 8 0"
  by (simp_all add: machine_eval)

lemma begin_can_success_example:
  "begin_can same5x 48000000 nbtp_zero 500000 (power_on (CANSAME5x_pins 4 5 blank_object)) =
     Inr (1, begun_machine) \<and>
   begun_machine \<noteq> power_on (CANSAME5x_pins 4 5 blank_object)"
proof -
  have "NBTP (hw begun_machine) \<noteq> NBTP (hw (power_on (CANSAME5x_pins 4 5 blank_object)))"
    by (simp add: machine_eval)
  hence "begun_machine \<noteq> power_on (CANSAME5x_pins 4 5 blank_object)" by auto
  moreover have "begin_can same5x 48000000 nbtp_zero 500000
      (power_on (CANSAME5x_pins 4 5 blank_object)) = Inr (1, begun_machine)"
    by (simp add: begin_can_def begun_machine_def power_on_def CANSAME5x_pins_def
        blank_object_def nbtp_eval)
  ultimately show ?thesis by simp
qed

lemma filter_can_installs_accept:
  "SFID1 (standard_rx_filter (filter_can W ident msk st)) =
     bit_field (SFID_bits W) (word_of_int ident) \<and>
   SFID2 (standard_rx_filter (filter_can W ident msk st)) =
     bit_field (SFID_bits W) (word_of_int msk) \<and>
   SFEC (standard_rx_filter (filter_can W ident msk st)) = STF0M \<and>
   EFEC (extended_rx_filter (filter_can W ident msk st)) = REJECT"
  by (simp add: filter_can_def Let_def)

lemma parsePacket_remote:
  assumes "RXF0S_F0FL (hw m) \<noteq> 0" and "unat (RXF0S_F0GI (hw m)) < 8"
    and "rxf0_RTR (rx_fifo (can_state m) (unat (RXF0S_F0GI (hw m))))"
  shows "\<exists>m'. parsePacket W m =
           Inr (uint (rxf1_DLC (rx_fifo (can_state m) (unat (RXF0S_F0GI (hw m))))), m') \<and>
         this_rxLength (dev m') = 0 \<and> this_rxData (dev m') = this_rxData (dev m)"
  using assms
  by (simp add: parsePacket_def Let_def ADAFRUIT_ZEROCAN_RX_FIFO_SIZE_def)

lemma parsePacket_data:
  assumes "RXF0S_F0FL (hw m) \<noteq> 0" and "unat (RXF0S_F0GI (hw m)) < 8"
    and "\<not> rxf0_RTR (rx_fifo (can_state m) (unat (RXF0S_F0GI (hw m))))"
  shows "\<exists>m'. parsePacket W m =
           Inr (uint (rxf1_DLC (rx_fifo (can_state m) (unat (RXF0S_F0GI (hw m))))), m') \<and>
         this_rxLength (dev m') =
           uint (rxf1_DLC (rx_fifo (can_state m) (unat (RXF0S_F0GI (hw m))))) \<and>
         overrun m' =
           overrun m + (unat (rxf1_DLC (rx_fifo (can_state m) (unat (RXF0S_F0GI (hw m))))) - 8)"
  using assms
  by (simp add: parsePacket_def Let_def ADAFRUIT_ZEROCAN_RX_FIFO_SIZE_def
      ADAFRUIT_ZEROCAN_MAX_MESSAGE_LENGTH_def)

lemma in_length_range_uint: "in_length_range (uint x)" if "x \<le> 8" for x :: u32
proof -
  have "uint x \<le> 8" using that by (simp add: word_le_def)
  moreover have "0 \<le> uint x" by simp
  ultimately show ?thesis unfolding in_length_range_def by linarith
qed

lemma cpu_irq_leave_enter_counter:
  "cpu_irq_critical_section_counter s + 1 \<noteq> 0 \<Longrightarrow>
   cpu_irq_critical_section_counter (cpu_irq_leave_critical (cpu_irq_enter_critical s)) =
     cpu_irq_critical_section_counter s"
  by (simp add: cpu_irq_leave_critical_def cpu_irq_enter_critical_def Let_def word_gt_0)

lemma cpu_irq_leave_enter_PRIMASK:
  "cpu_irq_critical_section_counter s = 0 \<Longrightarrow>
   PRIMASK (cpu_irq_leave_critical (cpu_irq_enter_critical s)) = PRIMASK s"
  by (simp add: cpu_irq_leave_critical_def cpu_irq_enter_critical_def Let_def)

lemma parsePacket_frame_counter:
  assumes "RXF0S_F0FL (hw m) \<noteq> 0" and "parsePacket W m = Inr (v, m')"
    and "cpu_irq_critical_section_counter (irq m) + 1 \<noteq> 0"
  shows "cpu_irq_critical_section_counter (irq m') = cpu_irq_critical_section_counter (irq m)"
proof -
  from assms(1,2) have "irq m' = cpu_irq_leave_critical (cpu_irq_enter_critical (irq m))"
    by (auto simp: parsePacket_def Let_def split: if_splits)
  thus ?thesis using assms(3) by (simp add: cpu_irq_leave_enter_counter)
qed

text \<open>
  A data frame with length code 9 in slot 0: the call returns 9, the stored receive
  length is 9, and one byte has been written past the eight bytes of \<open>_rxData\<close>.
\<close>

lemma parsePacket_data_overrun_example:
  "\<exists>m'. parsePacket same5x (queued_machine (data_frame 9 [1, 2, 3, 4, 5, 6, 7, 8])) =
           Inr (9, m') \<and>
         this_rxLength (dev m') = 9 \<and> this_rxData (dev m') = [1, 2, 3, 4, 5, 6, 7, 8] \<and>
         overrun m' = 1"
  by (simp add: parsePacket_def ADAFRUIT_ZEROCAN_RX_FIFO_SIZE_def
      ADAFRUIT_ZEROCAN_MAX_MESSAGE_LENGTH_def memcpy_def machine_eval)

lemma wait_for_tx_timeout:
  "(\<And>j. i \<le> j \<Longrightarrow> j < 8000 \<Longrightarrow> TXBTO_read j AND 1 = 0) \<Longrightarrow>
   wait_for_tx TXBTO_read i = Tx_Timeout"
proof (induction TXBTO_read i rule: wait_for_tx.induct)
  case (1 TXBTO_read i)
  show ?case
  proof (cases "i < 8000")
    case True
    hence z: "TXBTO_read i AND 1 = 0" using "1.prems" by simp
    have "wait_for_tx TXBTO_read (i + 1) = Tx_Timeout"
      using True z "1.prems" by (intro "1.IH") simp_all
    thus ?thesis using True z by (subst wait_for_tx.simps) simp
  next
    case False
    thus ?thesis by (subst wait_for_tx.simps) simp
  qed
qed

lemma wait_for_tx_occurred:
  "i \<le> k \<Longrightarrow> k < 8000 \<Longrightarrow> TXBTO_read k AND 1 \<noteq> 0 \<Longrightarrow>
   wait_for_tx TXBTO_read i = Tx_Occurred"
proof (induction TXBTO_read i rule: wait_for_tx.induct)
  case (1 TXBTO_read i)
  have i: "i < 8000" using "1.prems" by simp
  show ?case
  proof (cases "TXBTO_read i AND 1 = 0")
    case True
    hence "i \<noteq> k" using "1.prems" by auto
    hence "wait_for_tx TXBTO_read (i + 1) = Tx_Occurred"
      using i True "1.prems" by (intro "1.IH") simp_all
    thus ?thesis using i True by (subst wait_for_tx.simps) simp
  next
    case False
    thus ?thesis using i by (subst wait_for_tx.simps) simp
  qed
qed

lemma endPacket_returns_1:
  assumes "fst (base_endPacket (dev m)) \<noteq> 0"
    and "this_txRtr (snd (base_endPacket (dev m))) \<or>
         (0 \<le> this_txLength (snd (base_endPacket (dev m))) \<and>
          this_txLength (snd (base_endPacket (dev m))) \<le> 8)"
  shows "returned (endPacket W base_endPacket TXBTO_read m) = Some 1"
  using assms
  by (cases "base_endPacket (dev m)")
     (auto simp: endPacket_def Let_def returned_def ADAFRUIT_ZEROCAN_MAX_MESSAGE_LENGTH_def
        split: tx_wait.splits)

section \<open>Claims about the bit-timing calculator\<close>

text \<open>
  Claim C1, as the code has it. Whenever \<open>compute_nbtp\<close> succeeds, the specification's
  algorithm (clocks per bit rounded half up, sample point at 7/8, smallest divisor
  counted from 1, \<open>segment1_length = round(clocks_to_sample / divisor) - 2\<close>,
  \<open>segment2_length = round(clocks_after_sample / divisor) - 1\<close>,
  \<open>prescaler = divisor - 1\<close>,
  \<open>sync_jump_width = round(clocks_after_sample / (divisor * 4))\<close>) succeeds as well, and
  if its two segment lengths are not negative, the four register fields hold exactly
  its four parameters, provided the fields are at least 8, 7, 5 and 6 bits wide. The
  unsigned fields cannot hold the negative lengths the algorithm yields when a bit has
  fewer than five clocks.
\<close>

theorem compute_nbtp_matches_spec:
  assumes succ: "compute_nbtp W can_frequency baudrate result = Inr (True, r')"
    and w1: "8 \<le> NTSEG1_bits W" and w2: "7 \<le> NTSEG2_bits W"
    and w3: "5 \<le> NBRP_bits W" and w4: "6 \<le> NSJW_bits W"
  shows "\<exists>p. spec_compute (unat can_frequency) (unat baudrate) = Some p \<and>
           (0 \<le> segment1_length p \<and> 0 \<le> segment2_length p \<longrightarrow> params_agree r' p)"
proof -
  define T where "T = spec_clocks_to_sample (unat can_frequency) (unat baudrate)"
  define A where "A = spec_clocks_after_sample (unat can_frequency) (unat baudrate)"
  define d where "d = spec_divisor (unat can_frequency) (unat baudrate)"
  note s = compute_nbtp_success [OF succ, folded T_def A_def d_def]
  define p where "p =
     \<lparr>segment1_length = int (spec_round T d) - 2,
      segment2_length = int (spec_round A d) - 1,
      prescaler = int d - 1,
      sync_jump_width = int (spec_round A (d * 4))\<rparr>"
  have sp: "spec_compute (unat can_frequency) (unat baudrate) = Some p"
    using s(2) by (simp add: spec_compute_def Let_def p_def T_def A_def d_def)
  have d0: "0 < d" using s(1) by simp
  have n1: "spec_round T d \<le> 256" using d0 s(3) by (intro spec_round_le) simp_all
  have n2: "spec_round A d \<le> 128" using d0 s(4) by (intro spec_round_le) simp_all
  have n3: "spec_round A (d * 4) \<le> 32" using d0 s(4) by (intro spec_round_le) simp_all
  have p2: "(2::nat) ^ 8 \<le> 2 ^ NTSEG1_bits W" "(2::nat) ^ 7 \<le> 2 ^ NTSEG2_bits W"
    "(2::nat) ^ 5 \<le> 2 ^ NBRP_bits W" "(2::nat) ^ 6 \<le> 2 ^ NSJW_bits W"
    using w1 w2 w3 w4 by (simp_all only: power_increasing_iff one_less_numeral_iff
        semiring_norm)
  have f3: "unat (NBRP r') = d - 1"
    using unat_bit_field_sub [of 1 d "NBRP_bits W"] s(1,2) p2(3) by (simp add: s(7))
  have f4: "unat (NSJW r') = spec_round A (d * 4)"
    using unat_bit_field_sub [of 0 "spec_round A (d * 4)" "NSJW_bits W"] n3 p2(4)
    by (simp add: s(7))
  have "params_agree r' p" if nn: "0 \<le> segment1_length p" "0 \<le> segment2_length p"
  proof -
    have g1: "2 \<le> spec_round T d" and g2: "1 \<le> spec_round A d"
      using nn by (simp_all add: p_def)
    have f1: "unat (NTSEG1 r') = spec_round T d - 2"
      using unat_bit_field_sub [of 2 "spec_round T d" "NTSEG1_bits W"] g1 n1 p2(1)
      by (simp add: s(7))
    have f2: "unat (NTSEG2 r') = spec_round A d - 1"
      using unat_bit_field_sub [of 1 "spec_round A d" "NTSEG2_bits W"] g2 n2 p2(2)
      by (simp add: s(7))
    show ?thesis
      unfolding params_agree_def uint_nat f1 f2 f3 f4
      using g1 g2 s(1) by (simp add: p_def)
  qed
  thus ?thesis using sp by blast
qed

text \<open>
  The specification's example: at 48 MHz and 500 kbit/s the code returns
  \<open>segment1_length = 82\<close>, \<open>segment2_length = 11\<close>, \<open>prescaler = 0\<close>,
  \<open>sync_jump_width = 3\<close>, as the algorithm does.
\<close>

theorem compute_nbtp_matches_spec_witness:
  "compute_nbtp same5x 48000000 500000 nbtp_zero =
     Inr (True, \<lparr>NTSEG2 = 11, NTSEG1 = 82, NBRP = 0, NSJW = 3\<rparr>) \<and>
   8 \<le> NTSEG1_bits same5x \<and> 7 \<le> NTSEG2_bits same5x \<and>
   5 \<le> NBRP_bits same5x \<and> 6 \<le> NSJW_bits same5x \<and>
   spec_compute 48000000 500000 =
     Some \<lparr>segment1_length = 82, segment2_length = 11, prescaler = 0, sync_jump_width = 3\<rparr> \<and>
   params_agree \<lparr>NTSEG2 = 11, NTSEG1 = 82, NBRP = 0, NSJW = 3\<rparr>
     \<lparr>segment1_length = 82, segment2_length = 11, prescaler = 0, sync_jump_width = 3\<rparr>"
proof -
  have c: "compute_nbtp same5x 48000000 500000 nbtp_zero =
     Inr (True, \<lparr>NTSEG2 = 11, NTSEG1 = 82, NBRP = 0, NSJW = 3\<rparr>)"
    by (simp add: nbtp_eval)
  have s: "spec_compute 48000000 500000 =
     Some \<lparr>segment1_length = 82, segment2_length = 11, prescaler = 0, sync_jump_width = 3\<rparr>"
    by (simp add: spec_eval)
  have w: "8 \<le> NTSEG1_bits same5x" "7 \<le> NTSEG2_bits same5x"
    "5 \<le> NBRP_bits same5x" "6 \<le> NSJW_bits same5x"
    by (simp_all add: same5x_def)
  from compute_nbtp_matches_spec [OF c w]
  have "params_agree \<lparr>NTSEG2 = 11, NTSEG1 = 82, NBRP = 0, NSJW = 3\<rparr>
     \<lparr>segment1_length = 82, segment2_length = 11, prescaler = 0, sync_jump_width = 3\<rparr>"
    by (simp add: s)
  thus ?thesis using c s w by simp
qed

text \<open>
  Claim C1 as stated fails at 48 MHz and 24 Mbit/s: a bit has two clocks, both before
  the sample point, the algorithm's \<open>segment2_length\<close> is \<open>0 - 1 = -1\<close>, and the code's
  unsigned subtraction wraps, leaving 127 in the seven-bit field.
\<close>

theorem compute_nbtp_matches_spec_counterexample:
  "compute_nbtp same5x 48000000 24000000 nbtp_zero =
     Inr (True, \<lparr>NTSEG2 = 127, NTSEG1 = 0, NBRP = 0, NSJW = 0\<rparr>) \<and>
   spec_compute 48000000 24000000 =
     Some \<lparr>segment1_length = 0, segment2_length = - 1, prescaler = 0, sync_jump_width = 0\<rparr> \<and>
   \<not> params_agree \<lparr>NTSEG2 = 127, NTSEG1 = 0, NBRP = 0, NSJW = 0\<rparr>
     \<lparr>segment1_length = 0, segment2_length = - 1, prescaler = 0, sync_jump_width = 0\<rparr>"
  by (simp add: nbtp_eval spec_eval params_agree_def)

text \<open>
  Claim C2. \<open>compute_nbtp\<close> returns \<open>false\<close> exactly when the smallest divisor of the
  specification's algorithm exceeds 32, and whenever it returns \<open>false\<close> the caller's
  \<open>result\<close> is left as it was. This holds for every baud rate at every clock for
  which the rounding sum \<open>can_frequency + baudrate / 2\<close> fits in 32 bits: that is every
  baud rate at any clock up to \<open>2^31\<close> Hz, and \<open>can_frequency\<close> is the board's clock.
\<close>

theorem compute_nbtp_unachievable_iff:
  assumes nw1: "unat can_frequency + unat baudrate div 2 < 2 ^ 32"
  shows "(compute_nbtp W can_frequency baudrate result = Inr (False, result) \<longleftrightarrow>
            32 < spec_divisor (unat can_frequency) (unat baudrate)) \<and>
         (\<forall>r'. compute_nbtp W can_frequency baudrate result = Inr (False, r') \<longrightarrow> r' = result)"
proof -
  let ?cpb = "DIV_ROUND can_frequency baudrate"
  have part2: "\<forall>r'. compute_nbtp W can_frequency baudrate result = Inr (False, r') \<longrightarrow> r' = result"
    by (simp add: compute_nbtp_False_iff)
  have "compute_nbtp W can_frequency baudrate result = Inr (False, result) \<longleftrightarrow>
            32 < spec_divisor (unat can_frequency) (unat baudrate)"
  proof (cases "baudrate = 0")
    case True
    hence "\<not> 32 < spec_divisor (unat can_frequency) (unat baudrate)"
      by (simp add: spec_eval)
    thus ?thesis using True by (simp add: compute_nbtp_False_iff)
  next
    case b: False
    from nw1 have P: "unat ?cpb = spec_clocks_per_bit (unat can_frequency) (unat baudrate)"
      by (simp add: spec_clocks_per_bit_def unat_DIV_ROUND)
    have "32 < divisor_of ?cpb \<longleftrightarrow> 32 < spec_divisor (unat can_frequency) (unat baudrate)"
    proof (cases "unat ?cpb * 7 + 4 < 2 ^ 32")
      case True
      have "32 < divisor_of ?cpb \<longleftrightarrow> 32 < unat (divisor_of ?cpb)"
        by (simp add: word_less_nat_alt)
      also have "\<dots> \<longleftrightarrow> 32 < max 1 (unat (divisor_of ?cpb))" by linarith
      finally show ?thesis by (simp only: spec_of_code(4) [OF nw1 True])
    next
      case False
      hence code: "32 < divisor_of ?cpb" by (intro divisor_of_wrap) simp
      have "2 ^ 29 \<le> spec_clocks_to_sample (unat can_frequency) (unat baudrate)"
        using False spec_round_8_bounds(2) [of "unat ?cpb"]
        by (simp add: spec_clocks_to_sample_def P)
      hence "\<not> spec_ceil (spec_clocks_to_sample (unat can_frequency) (unat baudrate)) 256 \<le> 32"
        by (simp add: spec_ceil_le_iff)
      hence "32 < spec_divisor (unat can_frequency) (unat baudrate)"
        unfolding spec_divisor_def smallest_divisor_eq by linarith
      thus ?thesis using code by simp
    qed
    thus ?thesis using b by (simp add: compute_nbtp_False_iff)
  qed
  thus ?thesis using part2 by simp
qed

text \<open>
  At 48 MHz, 1 kbit/s needs a divisor of 165 and is refused, 500 kbit/s needs 1 and is
  not.
\<close>

theorem compute_nbtp_unachievable_iff_witness:
  "unat (48000000 :: u32) + unat (1000 :: u32) div 2 < 2 ^ 32 \<and>
   compute_nbtp same5x 48000000 1000 nbtp_zero = Inr (False, nbtp_zero) \<and>
   32 < spec_divisor 48000000 1000 \<and>
   unat (48000000 :: u32) + unat (500000 :: u32) div 2 < 2 ^ 32 \<and>
   compute_nbtp same5x 48000000 500000 nbtp_zero \<noteq> Inr (False, nbtp_zero) \<and>
   \<not> 32 < spec_divisor 48000000 500000"
  using compute_nbtp_unachievable_iff [of 48000000 1000 same5x nbtp_zero]
    compute_nbtp_unachievable_iff [of 48000000 500000 same5x nbtp_zero]
  by (simp add: spec_eval)

text \<open>
  The hypothesis on the rounding sum is met by every baud rate at the 48 MHz of the
  specification's example, down to 1 bit/s and up to the largest 32-bit value.
\<close>

lemma compute_nbtp_rounding_sum_48MHz:
  "unat (48000000 :: u32) + unat (baudrate :: u32) div 2 < 2 ^ 32"
proof -
  have "unat baudrate < 2 ^ 32" using unsigned_less [of baudrate] by simp
  thus ?thesis by simp
qed

text \<open>
  Only a clock above \<open>2^31\<close> Hz, which no board clock is, can make the sum wrap: at
  4294967295 Hz and 2 bit/s it wraps to 0, \<open>clocks_per_bit\<close> and \<open>divisor\<close> are 0 and
  the code divides by zero.
\<close>

lemma compute_nbtp_rounding_sum_wraps:
  "compute_nbtp same5x 4294967295 2 nbtp_zero = Inl Division_By_Zero \<and>
   32 < spec_divisor 4294967295 2"
  by (simp add: nbtp_eval spec_eval)

text \<open>
  Claim C3, as the code has it. Whenever \<open>compute_nbtp\<close> succeeds for a bit of at least
  13 clocks, the returned fields satisfy \<open>segment1_length \<ge> 1\<close>,
  \<open>segment2_length \<ge> 1\<close> and \<open>0 \<le> sync_jump_width \<le> segment2_length + 1\<close>, provided
  the fields are at least 8, 7 and 6 bits wide.
\<close>

theorem compute_nbtp_valid_timing:
  assumes succ: "compute_nbtp W can_frequency baudrate result = Inr (True, r')"
    and w1: "8 \<le> NTSEG1_bits W" and w2: "7 \<le> NTSEG2_bits W" and w4: "6 \<le> NSJW_bits W"
    and cpb: "13 \<le> spec_clocks_per_bit (unat can_frequency) (unat baudrate)"
  shows "timing_valid r'"
proof -
  define P where "P = spec_clocks_per_bit (unat can_frequency) (unat baudrate)"
  define T where "T = spec_clocks_to_sample (unat can_frequency) (unat baudrate)"
  define A where "A = spec_clocks_after_sample (unat can_frequency) (unat baudrate)"
  define d where "d = spec_divisor (unat can_frequency) (unat baudrate)"
  note s = compute_nbtp_success [OF succ, folded T_def A_def d_def]
  have d0: "0 < d" using s(1) by simp
  have TP: "T = spec_round (P * 7) 8" by (simp add: T_def P_def spec_clocks_to_sample_def)
  have AP: "A = P - T" by (simp add: A_def T_def P_def spec_clocks_after_sample_def)
  have least: "d \<le> e" if "1 \<le> e" "T \<le> 256 * e" "A \<le> 128 * e" for e
  proof -
    have "divisor_ok T A e" using that by (simp add: divisor_ok_iff)
    thus ?thesis
      unfolding d_def spec_divisor_def T_def [symmetric] A_def [symmetric]
      using that(1) by (intro smallest_divisor_least(3))
  qed
  have big: "3 * d \<le> T" "2 * d \<le> A"
    using segments_large [of P T A d] cpb spec_round_8_bounds [of P] s(1) least
    by (simp_all add: P_def [symmetric] TP [symmetric] AP)
  have g1: "3 \<le> spec_round T d" using d0 big(1) by (intro spec_round_ge) simp_all
  have g2: "2 \<le> spec_round A d" using d0 big(2) by (intro spec_round_ge) simp_all
  have n1: "spec_round T d \<le> 256" using d0 s(3) by (intro spec_round_le) simp_all
  have n2: "spec_round A d \<le> 128" using d0 s(4) by (intro spec_round_le) simp_all
  have n3: "spec_round A (d * 4) \<le> spec_round A d" using d0 by (rule spec_round_quarter_le)
  have n4: "spec_round A (d * 4) \<le> 32" using d0 s(4) by (intro spec_round_le) simp_all
  have p2: "(2::nat) ^ 8 \<le> 2 ^ NTSEG1_bits W" "(2::nat) ^ 7 \<le> 2 ^ NTSEG2_bits W"
    "(2::nat) ^ 6 \<le> 2 ^ NSJW_bits W"
    using w1 w2 w4 by (simp_all only: power_increasing_iff one_less_numeral_iff
        semiring_norm)
  have f1: "unat (NTSEG1 r') = spec_round T d - 2"
    using unat_bit_field_sub [of 2 "spec_round T d" "NTSEG1_bits W"] g1 n1 p2(1)
    by (simp add: s(7))
  have f2: "unat (NTSEG2 r') = spec_round A d - 1"
    using unat_bit_field_sub [of 1 "spec_round A d" "NTSEG2_bits W"] g2 n2 p2(2)
    by (simp add: s(7))
  have f4: "unat (NSJW r') = spec_round A (d * 4)"
    using unat_bit_field_sub [of 0 "spec_round A (d * 4)" "NSJW_bits W"] n4 p2(3)
    by (simp add: s(7))
  show ?thesis
    unfolding timing_valid_def f1 f2 f4 using g1 g2 n3 by linarith
qed

theorem compute_nbtp_valid_timing_witness:
  "compute_nbtp same5x 48000000 500000 nbtp_zero =
     Inr (True, \<lparr>NTSEG2 = 11, NTSEG1 = 82, NBRP = 0, NSJW = 3\<rparr>) \<and>
   8 \<le> NTSEG1_bits same5x \<and> 7 \<le> NTSEG2_bits same5x \<and> 6 \<le> NSJW_bits same5x \<and>
   13 \<le> spec_clocks_per_bit 48000000 500000 \<and>
   timing_valid \<lparr>NTSEG2 = 11, NTSEG1 = 82, NBRP = 0, NSJW = 3\<rparr>"
proof -
  have c: "compute_nbtp same5x 48000000 500000 nbtp_zero =
     Inr (True, \<lparr>NTSEG2 = 11, NTSEG1 = 82, NBRP = 0, NSJW = 3\<rparr>)"
    by (simp add: nbtp_eval)
  have w: "8 \<le> NTSEG1_bits same5x" "7 \<le> NTSEG2_bits same5x" "6 \<le> NSJW_bits same5x"
    by (simp_all add: same5x_def)
  have p: "13 \<le> spec_clocks_per_bit (unat (48000000 :: u32)) (unat (500000 :: u32))"
    by (simp add: spec_eval)
  have "timing_valid \<lparr>NTSEG2 = 11, NTSEG1 = 82, NBRP = 0, NSJW = 3\<rparr>"
    by (rule compute_nbtp_valid_timing [OF c w p])
  thus ?thesis using c w p by simp
qed

text \<open>
  Claim C3 as stated fails at 48 MHz and 6 Mbit/s: a bit has eight clocks, seven before
  the sample point and one after, the divisor is 1, and the code succeeds with
  \<open>segment2_length = 1 - 1 = 0\<close>.
\<close>

theorem compute_nbtp_valid_timing_counterexample:
  "compute_nbtp same5x 48000000 6000000 nbtp_zero =
     Inr (True, \<lparr>NTSEG2 = 0, NTSEG1 = 5, NBRP = 0, NSJW = 0\<rparr>) \<and>
   \<not> timing_valid \<lparr>NTSEG2 = 0, NTSEG1 = 5, NBRP = 0, NSJW = 0\<rparr>"
  by (simp add: nbtp_eval timing_valid_def)

section \<open>Claims about the controller\<close>

text \<open>
  Claim C4 asks that \<open>filterExtended\<close> install an extended filter with the given id
  and mask that accepts to the FIFO, and a standard filter that rejects everything.
  The code writes the id and the mask (cut to the width of the fields), but gives the
  extended filter the disposition \<open>REJECT\<close>, not \<open>STF0M\<close> as \<open>filter\<close> gives its
  standard filter: after \<open>filterExtended\<close> both filter elements reject.
\<close>

theorem filterExtended_installs_reject:
  "EFID1 (extended_rx_filter (filterExtended W ident msk st)) =
     bit_field (EFID_bits W) (word_of_int ident) \<and>
   EFID2 (extended_rx_filter (filterExtended W ident msk st)) =
     bit_field (EFID_bits W) (word_of_int msk) \<and>
   EFEC (extended_rx_filter (filterExtended W ident msk st)) = REJECT \<and>
   SFEC (standard_rx_filter (filterExtended W ident msk st)) = REJECT"
  by (simp add: filterExtended_def Let_def)

text \<open>
  Claim C5 asks that every call of \<open>parsePacket\<close> leave the critical-section counter
  as it found it. On a controller that has begun, with an empty receive FIFO, the
  counter at 0 and interrupts enabled, the code returns 0 with the counter at 1 and
  interrupts disabled: the \<open>return 0\<close> comes before the call that would leave the
  critical section.
\<close>

theorem parsePacket_empty_stays_critical:
  "parsePacket same5x begun_machine =
     Inr (0, begun_machine\<lparr>irq :=
       \<lparr>cpu_irq_critical_section_counter = 1, cpu_irq_prev_interrupt_state = 1,
        PRIMASK = 1\<rparr>\<rparr>)"
  by (simp add: parsePacket_empty begun_machine_fifo_empty begun_machine_irq
      cpu_irq_enter_critical_def Let_def)

text \<open>
  Claim C6. Once the base class has accepted the packet and the payload fits the
  eight-byte buffer, \<open>endPacket\<close> returns 1 whatever the transmission-complete
  indicator reads during the 8000 polls: the wait ends at \<open>return true\<close> when some
  poll finds the indicator set, and runs to its bound and ends at \<open>return 1\<close> when
  none does.
\<close>

theorem endPacket_reports_success:
  assumes "fst (base_endPacket (dev m)) \<noteq> 0"
    and "this_txRtr (snd (base_endPacket (dev m))) \<or>
         (0 \<le> this_txLength (snd (base_endPacket (dev m))) \<and>
          this_txLength (snd (base_endPacket (dev m))) \<le> 8)"
  shows "returned (endPacket W base_endPacket TXBTO_read m) = Some 1 \<and>
         ((\<exists>k<8000. TXBTO_read k AND 1 \<noteq> 0) \<longrightarrow> wait_for_tx TXBTO_read 0 = Tx_Occurred) \<and>
         ((\<forall>i<8000. TXBTO_read i AND 1 = 0) \<longrightarrow> wait_for_tx TXBTO_read 0 = Tx_Timeout)"
proof (intro conjI)
  show "returned (endPacket W base_endPacket TXBTO_read m) = Some 1"
    using assms by (rule endPacket_returns_1)
  show "(\<exists>k<8000. TXBTO_read k AND 1 \<noteq> 0) \<longrightarrow> wait_for_tx TXBTO_read 0 = Tx_Occurred"
    by (auto intro: wait_for_tx_occurred)
  show "(\<forall>i<8000. TXBTO_read i AND 1 = 0) \<longrightarrow> wait_for_tx TXBTO_read 0 = Tx_Timeout"
    by (auto intro: wait_for_tx_timeout)
qed

theorem endPacket_reports_success_witness:
  "fst (packet_begun (dev begun_machine)) \<noteq> 0 \<and>
   (this_txRtr (snd (packet_begun (dev begun_machine))) \<or>
    (0 \<le> this_txLength (snd (packet_begun (dev begun_machine))) \<and>
     this_txLength (snd (packet_begun (dev begun_machine))) \<le> 8)) \<and>
   never_completes 0 AND 1 = 0 \<and> never_completes 7999 AND 1 = 0 \<and>
   wait_for_tx never_completes 0 = Tx_Timeout \<and>
   returned (endPacket same5x packet_begun never_completes begun_machine) = Some 1"
  using endPacket_reports_success [of packet_begun begun_machine same5x never_completes]
  by (simp add: packet_begun_def never_completes_def machine_eval)

text \<open>
  Claim C7. \<open>begin\<close> returns 0 and leaves the whole machine (peripheral registers,
  message RAM, controller object, pins, clock, interrupt table) exactly as it was, both
  when \<open>_tx\<close> is \<open>-1\<close> and when \<open>compute_nbtp\<close> returns \<open>false\<close>.
\<close>

theorem begin_failure_touches_nothing:
  "(this_tx (dev m) = - 1 \<longrightarrow> begin_can W can_frequency nbtp baudrate m = Inr (0, m)) \<and>
   (compute_nbtp W can_frequency baudrate nbtp = Inr (False, r) \<longrightarrow>
      begin_can W can_frequency nbtp baudrate m = Inr (0, m))"
  by (simp add: begin_can_def)

theorem begin_failure_touches_nothing_witness:
  "this_tx (dev (power_on (CANSAME5x_default blank_object))) = - 1 \<and>
   begin_can same5x 48000000 nbtp_zero 500000 (power_on (CANSAME5x_default blank_object)) =
     Inr (0, power_on (CANSAME5x_default blank_object)) \<and>
   compute_nbtp same5x 48000000 1000 nbtp_zero = Inr (False, nbtp_zero) \<and>
   begin_can same5x 48000000 nbtp_zero 1000 (power_on (CANSAME5x_pins 4 5 blank_object)) =
     Inr (0, power_on (CANSAME5x_pins 4 5 blank_object))"
proof -
  have c: "compute_nbtp same5x 48000000 1000 nbtp_zero = Inr (False, nbtp_zero)"
    by (simp add: nbtp_eval)
  have t: "this_tx (dev (power_on (CANSAME5x_default blank_object))) = - 1"
    by (simp add: power_on_def CANSAME5x_default_def)
  show ?thesis
    using begin_failure_touches_nothing
      [of "power_on (CANSAME5x_default blank_object)" same5x 48000000 nbtp_zero 500000 nbtp_zero]
      begin_failure_touches_nothing
      [of "power_on (CANSAME5x_pins 4 5 blank_object)" same5x 48000000 nbtp_zero 1000 nbtp_zero]
      c t
    by simp
qed

text \<open>
  Claim C8, as the code has it. \<open>parsePacket\<close> returns 0 whenever the FIFO fill count
  is 0. Otherwise, when the get index addresses one of the eight slots and the slot
  holds a remote-request frame or a length code of at most 8, it returns the slot's
  length code as the hardware stored it: for a data frame with a length code of at most
  8 that is 0 or a value in 1..8, for a remote-request frame it is the raw code, on
  which the driver enforces no bound. A data frame with a length code above 8 is left
  out here: there the copy of the payload runs past the eight-byte arrays.
\<close>

theorem parsePacket_returns_length_code:
  "(RXF0S_F0FL (hw m) = 0 \<longrightarrow> returned (parsePacket W m) = Some 0) \<and>
   (RXF0S_F0FL (hw m) \<noteq> 0 \<and> unat (RXF0S_F0GI (hw m)) < 8 \<and>
    (rxf0_RTR (rx_fifo (can_state m) (unat (RXF0S_F0GI (hw m)))) \<or>
     rxf1_DLC (rx_fifo (can_state m) (unat (RXF0S_F0GI (hw m)))) \<le> 8) \<longrightarrow>
      returned (parsePacket W m) =
        Some (uint (rxf1_DLC (rx_fifo (can_state m) (unat (RXF0S_F0GI (hw m))))))) \<and>
   (RXF0S_F0FL (hw m) \<noteq> 0 \<and> unat (RXF0S_F0GI (hw m)) < 8 \<and>
    \<not> rxf0_RTR (rx_fifo (can_state m) (unat (RXF0S_F0GI (hw m)))) \<and>
    rxf1_DLC (rx_fifo (can_state m) (unat (RXF0S_F0GI (hw m)))) \<le> 8 \<longrightarrow>
      (\<exists>v. returned (parsePacket W m) = Some v \<and> in_length_range v))"
proof (intro conjI impI)
  assume "RXF0S_F0FL (hw m) = 0"
  thus "returned (parsePacket W m) = Some 0"
    by (simp add: parsePacket_empty returned_def)
next
  let ?slot = "rx_fifo (can_state m) (unat (RXF0S_F0GI (hw m)))"
  assume a: "RXF0S_F0FL (hw m) \<noteq> 0 \<and> unat (RXF0S_F0GI (hw m)) < 8 \<and>
    (rxf0_RTR ?slot \<or> rxf1_DLC ?slot \<le> 8)"
  show "returned (parsePacket W m) = Some (uint (rxf1_DLC ?slot))"
  proof (cases "rxf0_RTR ?slot")
    case True
    with a parsePacket_remote [of m W] show ?thesis by (auto simp: returned_def)
  next
    case False
    with a parsePacket_data [of m W] show ?thesis by (auto simp: returned_def)
  qed
next
  let ?slot = "rx_fifo (can_state m) (unat (RXF0S_F0GI (hw m)))"
  assume a: "RXF0S_F0FL (hw m) \<noteq> 0 \<and> unat (RXF0S_F0GI (hw m)) < 8 \<and>
    \<not> rxf0_RTR ?slot \<and> rxf1_DLC ?slot \<le> 8"
  with parsePacket_data [of m W]
  have "returned (parsePacket W m) = Some (uint (rxf1_DLC ?slot))"
    by (auto simp: returned_def)
  moreover have "in_length_range (uint (rxf1_DLC ?slot))"
    using a by (simp add: in_length_range_uint)
  ultimately show "\<exists>v. returned (parsePacket W m) = Some v \<and> in_length_range v"
    by simp
qed

text \<open>
  An empty FIFO gives 0, a queued remote-request frame with length code 9 gives 9, a
  queued data frame of eight bytes gives 8.
\<close>

theorem parsePacket_returns_length_code_witness:
  "RXF0S_F0FL (hw begun_machine) = 0 \<and>
   returned (parsePacket same5x begun_machine) = Some 0 \<and>
   RXF0S_F0FL (hw (queued_machine (remote_request 9))) \<noteq> 0 \<and>
   unat (RXF0S_F0GI (hw (queued_machine (remote_request 9)))) < 8 \<and>
   rxf0_RTR (rx_fifo (can_state (queued_machine (remote_request 9)))
      (unat (RXF0S_F0GI (hw (queued_machine (remote_request 9)))))) \<and>
   returned (parsePacket same5x (queued_machine (remote_request 9))) = Some 9 \<and>
   RXF0S_F0FL (hw (queued_machine (data_frame 8 [1, 2, 3, 4, 5, 6, 7, 8]))) \<noteq> 0 \<and>
   unat (RXF0S_F0GI (hw (queued_machine (data_frame 8 [1, 2, 3, 4, 5, 6, 7, 8])))) < 8 \<and>
   \<not> rxf0_RTR (rx_fifo (can_state (queued_machine (data_frame 8 [1, 2, 3, 4, 5, 6, 7, 8])))
      (unat (RXF0S_F0GI (hw (queued_machine (data_frame 8 [1, 2, 3, 4, 5, 6, 7, 8])))))) \<and>
   rxf1_DLC (rx_fifo (can_state (queued_machine (data_frame 8 [1, 2, 3, 4, 5, 6, 7, 8])))
      (unat (RXF0S_F0GI (hw (queued_machine (data_frame 8 [1, 2, 3, 4, 5, 6, 7, 8])))))) \<le> 8 \<and>
   returned (parsePacket same5x (queued_machine (data_frame 8 [1, 2, 3, 4, 5, 6, 7, 8]))) =
     Some 8 \<and>
   in_length_range 8"
  using parsePacket_returns_length_code [of begun_machine same5x]
    parsePacket_returns_length_code [of "queued_machine (remote_request 9)" same5x]
    parsePacket_returns_length_code
      [of "queued_machine (data_frame 8 [1, 2, 3, 4, 5, 6, 7, 8])" same5x]
  by (simp add: queued_machine_facts begun_machine_fifo_empty remote_request_def
      data_frame_def in_length_range_def)

text \<open>
  Claim C8 as stated fails for a queued remote-request frame whose length code is 9:
  the fill count is not 0 and the call returns 9, which is neither 0 nor in 1..8.
\<close>

theorem parsePacket_returns_length_code_counterexample:
  "RXF0S_F0FL (hw (queued_machine (remote_request 9))) \<noteq> 0 \<and>
   returned (parsePacket same5x (queued_machine (remote_request 9))) = Some 9 \<and>
   \<not> in_length_range 9"
proof -
  have "returned (parsePacket same5x (queued_machine (remote_request 9))) =
        Some (uint (rxf1_DLC (remote_request 9)))"
    using parsePacket_remote [of "queued_machine (remote_request 9)" same5x]
    by (auto simp: queued_machine_facts returned_def remote_request_def)
  thus ?thesis by (simp add: queued_machine_facts remote_request_def in_length_range_def)
qed

text \<open>
  Claim C9. For a dequeued remote-request frame \<open>parsePacket\<close> returns the slot's raw
  length code, sets the stored receive length to 0 and leaves the receive buffer as it
  was; so the returned value exceeds the number of bytes made available whenever the
  length code is not 0.
\<close>

theorem parsePacket_remote_request:
  assumes "RXF0S_F0FL (hw m) \<noteq> 0" and "unat (RXF0S_F0GI (hw m)) < 8"
    and "rxf0_RTR (rx_fifo (can_state m) (unat (RXF0S_F0GI (hw m))))"
  shows "\<exists>m'. parsePacket W m =
           Inr (uint (rxf1_DLC (rx_fifo (can_state m) (unat (RXF0S_F0GI (hw m))))), m') \<and>
         this_rxLength (dev m') = 0 \<and> this_rxData (dev m') = this_rxData (dev m)"
  using assms by (rule parsePacket_remote)

text \<open>A remote request for eight bytes: the call returns 8 and makes 0 bytes available.\<close>

theorem parsePacket_remote_request_witness:
  "RXF0S_F0FL (hw (queued_machine (remote_request 8))) \<noteq> 0 \<and>
   unat (RXF0S_F0GI (hw (queued_machine (remote_request 8)))) < 8 \<and>
   rxf0_RTR (rx_fifo (can_state (queued_machine (remote_request 8)))
      (unat (RXF0S_F0GI (hw (queued_machine (remote_request 8)))))) \<and>
   (\<exists>m'. parsePacket same5x (queued_machine (remote_request 8)) = Inr (8, m') \<and>
      this_rxLength (dev m') = 0 \<and> this_rxData (dev m') = replicate 8 0 \<and>
      this_rxLength (dev m') < 8)"
  using parsePacket_remote_request [of "queued_machine (remote_request 8)" same5x]
  by (auto simp: queued_machine_facts remote_request_def)

text \<open>
  Claim C10. A call of \<open>cpu_irq_leave_critical\<close> while the counter is 0 changes
  nothing: the counter stays 0 and PRIMASK keeps its value.
\<close>

theorem cpu_irq_leave_critical_idle:
  "cpu_irq_critical_section_counter s = 0 \<Longrightarrow> cpu_irq_leave_critical s = s"
  by (simp add: cpu_irq_leave_critical_def)

text \<open>
  With interrupts disabled and the remembered state saying they were enabled, an
  unbalanced leave still does not enable them.
\<close>

theorem cpu_irq_leave_critical_idle_witness:
  "cpu_irq_critical_section_counter
     \<lparr>cpu_irq_critical_section_counter = 0, cpu_irq_prev_interrupt_state = 1, PRIMASK = 1\<rparr> = 0 \<and>
   cpu_irq_leave_critical
     \<lparr>cpu_irq_critical_section_counter = 0, cpu_irq_prev_interrupt_state = 1, PRIMASK = 1\<rparr> =
     \<lparr>cpu_irq_critical_section_counter = 0, cpu_irq_prev_interrupt_state = 1, PRIMASK = 1\<rparr>"
  using cpu_irq_leave_critical_idle
    [of "\<lparr>cpu_irq_critical_section_counter = 0, cpu_irq_prev_interrupt_state = 1, PRIMASK = 1\<rparr>"]
  by simp

end
